theory Spec2Isabelle
  imports Main "HOL-Library.Sublist"
begin

section \<open>Strings of the execution server\<close>

text \<open>
  The server is one TypeScript module: the function \<^verbatim>\<open>executeCode\<close> and the two route
  handlers \<^verbatim>\<open>POST /api/execute\<close> and \<^verbatim>\<open>POST /api/abort\<close>. Source text, paths and
  process output are JavaScript strings; they are modelled as \<^typ>\<open>string\<close>, that is as
  sequences of code units below 256. On that range the character classes of the
  regular expressions and of \<^verbatim>\<open>String.prototype.trim\<close> are the ones below.
\<close>

type_synonym path = string

definition is_space :: "char \<Rightarrow> bool" where
  "is_space c = (c \<in> set [CHR 0x09, CHR 0x0A, CHR 0x0B, CHR 0x0C, CHR 0x0D, CHR 0x20, CHR 0xA0])"

definition is_digit :: "char \<Rightarrow> bool" where
  "is_digit c = (c \<in> set ''0123456789'')"

definition is_word :: "char \<Rightarrow> bool" where
  "is_word c = (is_digit c \<or> c = CHR ''_''
      \<or> c \<in> set ''abcdefghijklmnopqrstuvwxyz''
      \<or> c \<in> set ''ABCDEFGHIJKLMNOPQRSTUVWXYZ'')"

definition is_digit_dot :: "char \<Rightarrow> bool" where
  "is_digit_dot c = (is_digit c \<or> c = CHR ''.'')"

definition trim :: "string \<Rightarrow> string" where
  "trim s = rev (dropWhile is_space (rev (dropWhile is_space s)))"

text \<open>\<^verbatim>\<open>String(n)\<close> for a non-negative integer below \<^verbatim>\<open>1e21\<close>, and for an exit code.\<close>

definition digit_char :: "nat \<Rightarrow> char" where
  "digit_char d =
     (if d = 0 then CHR ''0'' else if d = 1 then CHR ''1'' else if d = 2 then CHR ''2''
      else if d = 3 then CHR ''3'' else if d = 4 then CHR ''4'' else if d = 5 then CHR ''5''
      else if d = 6 then CHR ''6'' else if d = 7 then CHR ''7'' else if d = 8 then CHR ''8''
      else CHR ''9'')"

function show_nat :: "nat \<Rightarrow> string" where
  "show_nat n = (if n < 10 then [digit_char n] else show_nat (n div 10) @ [digit_char (n mod 10)])"
  by pat_completeness auto
termination
  by (relation "measure id") auto

declare show_nat.simps [simp del]

definition show_int :: "int \<Rightarrow> string" where
  "show_int i = (if i < 0 then CHR ''-'' # show_nat (nat (- i)) else show_nat (nat i))"

text \<open>
  \<^verbatim>\<open>path.join(dir, name)\<close> on POSIX, for the directory that \<^verbatim>\<open>os.tmpdir()\<close> returns (no
  trailing slash, except for the root directory itself) and a plain file name.
\<close>

definition join :: "path \<Rightarrow> string \<Rightarrow> path" where
  "join dir name = (if dir = ''/'' then dir @ name else dir @ ''/'' @ name)"

subsection \<open>The regular expressions\<close>

text \<open>
  Every pattern of the module is a sequence of literals and greedy character-class runs
  in which each run is followed by a literal whose first character is outside the class
  (or by the end of the pattern), so the backtracking matcher has exactly one way to
  match at a given position: the run is maximal. \<open>strip_prefix\<close> matches a literal,
  \<open>run1\<close> a run \<^verbatim>\<open>[class]+\<close>; \<open>first_match\<close> is the search of \<^verbatim>\<open>String.prototype.match\<close>
  for the leftmost position at which the pattern matches.
\<close>

fun strip_prefix :: "string \<Rightarrow> string \<Rightarrow> string option" where
  "strip_prefix [] s = Some s"
| "strip_prefix (p # ps) [] = None"
| "strip_prefix (p # ps) (c # cs) = (if p = c then strip_prefix ps cs else None)"

definition run1 :: "(char \<Rightarrow> bool) \<Rightarrow> string \<Rightarrow> (string \<times> string) option" where
  "run1 P s = (if takeWhile P s = [] then None else Some (takeWhile P s, dropWhile P s))"

fun first_match :: "(string \<Rightarrow> 'a option) \<Rightarrow> string \<Rightarrow> 'a option" where
  "first_match m [] = m []"
| "first_match m (c # cs) = (case m (c # cs) of Some r \<Rightarrow> Some r | None \<Rightarrow> first_match m cs)"

fun last_match :: "(string \<Rightarrow> 'a option) \<Rightarrow> string \<Rightarrow> 'a option" where
  "last_match m [] = m []"
| "last_match m (c # cs) = (case last_match m cs of Some r \<Rightarrow> Some r | None \<Rightarrow> m (c # cs))"

fun first_split :: "string \<Rightarrow> string \<Rightarrow> (string \<times> string) option" where
  "first_split n [] = (if n = [] then Some ([], []) else None)"
| "first_split n (c # cs) =
     (case strip_prefix n (c # cs) of
        Some r \<Rightarrow> Some ([], r)
      | None \<Rightarrow> (case first_split n cs of None \<Rightarrow> None | Some (a, b) \<Rightarrow> Some (c # a, b)))"

text \<open>\<^verbatim>\<open>/public\s+class\s+(\w+)/\<close> at the head of \<open>s\<close>: the captured name.\<close>

definition class_decl_at :: "string \<Rightarrow> string option" where
  "class_decl_at s =
     (case strip_prefix ''public'' s of None \<Rightarrow> None | Some r1 \<Rightarrow>
     (case run1 is_space r1 of None \<Rightarrow> None | Some (sp1, r2) \<Rightarrow>
     (case strip_prefix ''class'' r2 of None \<Rightarrow> None | Some r3 \<Rightarrow>
     (case run1 is_space r3 of None \<Rightarrow> None | Some (sp2, r4) \<Rightarrow>
     (case run1 is_word r4 of None \<Rightarrow> None | Some (name, r5) \<Rightarrow> Some name)))))"

definition classNameMatch :: "string \<Rightarrow> string option" where
  "classNameMatch code = first_match class_decl_at code"

text \<open>\<^verbatim>\<open>/Execution Time: ([\d.]+) s/\<close> at the head of \<open>s\<close>: the captured payload.\<close>

definition time_marker_at :: "string \<Rightarrow> string option" where
  "time_marker_at s =
     (case strip_prefix ''Execution Time: '' s of None \<Rightarrow> None | Some r1 \<Rightarrow>
     (case run1 is_digit_dot r1 of None \<Rightarrow> None | Some (payload, r2) \<Rightarrow>
     (case strip_prefix '' s'' r2 of None \<Rightarrow> None | Some r3 \<Rightarrow> Some payload)))"

text \<open>\<^verbatim>\<open>/Execution Time: (\d+) ns/\<close>, the pattern of the java run stage.\<close>

definition nanos_marker_at :: "string \<Rightarrow> string option" where
  "nanos_marker_at s =
     (case strip_prefix ''Execution Time: '' s of None \<Rightarrow> None | Some r1 \<Rightarrow>
     (case run1 is_digit r1 of None \<Rightarrow> None | Some (payload, r2) \<Rightarrow>
     (case strip_prefix '' ns'' r2 of None \<Rightarrow> None | Some r3 \<Rightarrow> Some payload)))"

text \<open>\<^verbatim>\<open>/Memory Usage: ([\d.]+) MB/\<close> at the head of \<open>s\<close>: the payload and the text after the match.\<close>

definition memory_marker_at :: "string \<Rightarrow> (string \<times> string) option" where
  "memory_marker_at s =
     (case strip_prefix ''Memory Usage: '' s of None \<Rightarrow> None | Some r1 \<Rightarrow>
     (case run1 is_digit_dot r1 of None \<Rightarrow> None | Some (payload, r2) \<Rightarrow>
     (case strip_prefix '' MB'' r2 of None \<Rightarrow> None | Some r3 \<Rightarrow> Some (payload, r3))))"

text \<open>
  \<^verbatim>\<open>output.replace(/Performance Metrics:.*Memory Usage: [\d.]+ MB\n?/s, '')\<close>: with the
  \<^verbatim>\<open>s\<close> flag the greedy \<^verbatim>\<open>.*\<close> crosses lines, so the match runs from the first header to
  the last memory marker after it, and takes one newline when one follows. Without a
  \<^verbatim>\<open>g\<close> flag only that one match is replaced.
\<close>

definition strip_metrics :: "string \<Rightarrow> string" where
  "strip_metrics s =
     (case first_split ''Performance Metrics:'' s of
        None \<Rightarrow> s
      | Some (pre, post) \<Rightarrow>
          (case last_match memory_marker_at post of
             None \<Rightarrow> s
           | Some (payload, rest) \<Rightarrow>
               pre @ (case rest of [] \<Rightarrow> [] | c # cs \<Rightarrow> if c = CHR 0x0A then cs else c # cs)))"

subsection \<open>Numbers of the response\<close>

text \<open>
  \<^verbatim>\<open>executionTime\<close> and \<^verbatim>\<open>memoryUsage\<close> are doubles. The model keeps the expression
  that produced the number instead of a floating-point value: the literal \<^verbatim>\<open>0\<close>,
  \<^verbatim>\<open>parseFloat(payload)\<close>, \<^verbatim>\<open>parseInt(payload) / 1_000_000_000.0\<close>, and
  \<^verbatim>\<open>(Date.now() - startTime) / 1000\<close> with the difference in milliseconds.
\<close>

datatype jsnumber =
    Zero
  | ParseFloat string
  | ParseIntNanos string
  | ElapsedMillis int

fun digits_value :: "string \<Rightarrow> int \<Rightarrow> int" where
  "digits_value [] acc = acc"
| "digits_value (c # cs) acc = digits_value cs (10 * acc + (of_char c - 48))"

text \<open>
  \<^verbatim>\<open>!x\<close> for such a number: true for \<^verbatim>\<open>0\<close> and \<^verbatim>\<open>NaN\<close>. \<^verbatim>\<open>parseFloat\<close> reads the longest
  prefix that is a decimal literal (digits, an optional point, digits); on a payload of
  digits and points it yields \<^verbatim>\<open>NaN\<close> when that prefix has no digit, and a double that is
  zero when the decimal value rounds to zero, that is when it is at most \<^verbatim>\<open>2^-1075\<close>.
\<close>

definition parseFloat_falsy :: "string \<Rightarrow> bool" where
  "parseFloat_falsy s =
     (let ip = takeWhile is_digit s;
          fp = (case dropWhile is_digit s of
                  [] \<Rightarrow> []
                | c # cs \<Rightarrow> if c = CHR ''.'' then takeWhile is_digit cs else [])
      in ip @ fp = [] \<or> digits_value (ip @ fp) 0 * 2 ^ 1075 \<le> 10 ^ length fp)"

fun falsy :: "jsnumber \<Rightarrow> bool" where
  "falsy Zero = True"
| "falsy (ParseFloat s) = parseFloat_falsy s"
| "falsy (ParseIntNanos s) = (digits_value s 0 = 0)"
| "falsy (ElapsedMillis d) = (d = 0)"

section \<open>Files, processes and the environment\<close>

text \<open>
  \<^verbatim>\<open>executeCode\<close> acts on the temporary directory and on child processes. The state
  holds the files on disk, the trace of the effects the module has issued, and the
  module-level registry \<^verbatim>\<open>activeProcesses\<close> (a \<^verbatim>\<open>Map\<close> that no code path writes).
\<close>

datatype event =
    Spawn string "string list"
  | Write path string
  | Unlink path
  | Kill string

record state =
  files :: "path \<rightharpoonup> string"
  trace :: "event list"
  activeProcesses :: "string \<rightharpoonup> string"

text \<open>
  What a child process does is not decided by the module; it is a parameter. A process
  delivers \<^verbatim>\<open>data\<close> events on stdout and stderr, may leave files on disk, and ends in one
  of three ways: a \<^verbatim>\<open>close\<close> event with an exit code (\<open>None\<close> is the \<^verbatim>\<open>null\<close> code of a
  process ended by a signal) so many milliseconds after the spawn, no \<^verbatim>\<open>close\<close> event
  ever, or an \<^verbatim>\<open>error\<close> event because the command could not be started.
\<close>

datatype ending =
    Exit "int option" nat
  | Never
  | SpawnError

record proc =
  chunks_out :: "string list"
  chunks_err :: "string list"
  ending :: ending
  creates :: "(path \<times> string) list"

text \<open>
  The environment: \<^verbatim>\<open>os.tmpdir()\<close>, the three readings of \<^verbatim>\<open>Date.now()\<close> (on entry, after
  the first write, after the run stage), and the behaviour of a command given its
  arguments, the text written to its stdin (\<open>None\<close> when stdin is left open) and the
  files on disk when it starts.
\<close>

record world =
  tmpdir :: path
  timestamp :: nat
  startTime :: nat
  endTime :: nat
  spawn :: "string \<Rightarrow> string list \<Rightarrow> string option \<Rightarrow> (path \<rightharpoonup> string) \<Rightarrow> proc"

definition writeFile :: "path \<Rightarrow> string \<Rightarrow> state \<Rightarrow> state" where
  "writeFile p content s = s\<lparr>files := (files s)(p \<mapsto> content), trace := trace s @ [Write p content]\<rparr>"

text \<open>
  The cleanup idiom \<^verbatim>\<open>try { await fs.access(p); await unlink(p) } catch (e) { }\<close> and
  its variant \<^verbatim>\<open>if (exists) await unlink(p)\<close>: the file is deleted when it is there.
\<close>

definition unlink_if_exists :: "path \<Rightarrow> state \<Rightarrow> state" where
  "unlink_if_exists p s =
     (if p \<in> dom (files s) then s\<lparr>files := (files s)(p := None), trace := trace s @ [Unlink p]\<rparr> else s)"

definition kill :: "string \<Rightarrow> state \<Rightarrow> state" where
  "kill cmd s = s\<lparr>trace := trace s @ [Kill cmd]\<rparr>"

definition launch :: "world \<Rightarrow> string \<Rightarrow> string list \<Rightarrow> string option \<Rightarrow> state \<Rightarrow> proc \<times> state" where
  "launch w cmd args inp s =
     (let p = spawn w cmd args inp (files s)
      in (p, s\<lparr>files := (if ending p = SpawnError then files s else files s ++ map_of (creates p)),
               trace := trace s @ [Spawn cmd args]\<rparr>))"

text \<open>
  An awaited computation returns, throws an \<^verbatim>\<open>Error\<close> with a message, never settles, or
  dies: an \<^verbatim>\<open>error\<close> event on a child process that has no \<^verbatim>\<open>error\<close> listener is rethrown
  by the event emitter outside every \<^verbatim>\<open>try\<close> block of the module.
\<close>

datatype 'a outcome =
    Returns 'a
  | Throws string
  | Pending
  | Fault

section \<open>The response\<close>

text \<open>
  The fields of the result object that the claims speak about. \<open>output\<close> is \<open>None\<close>
  for \<^verbatim>\<open>null\<close>; \<open>errors\<close> is \<open>None\<close> when the property is \<^verbatim>\<open>undefined\<close> or not there;
  \<open>error\<close> is the property of that name of the java results (\<open>Some None\<close> for
  \<^verbatim>\<open>null\<close>, \<open>None\<close> when the object has no such property). The \<^verbatim>\<open>complexity\<close>,
  \<^verbatim>\<open>suggestions\<close> and \<^verbatim>\<open>aiFeedback\<close> properties are values of the pure functions
  \<^verbatim>\<open>analyzeComplexity\<close> and \<^verbatim>\<open>generateAISuggestions\<close> of the source text and the language tag;
  they take no part in execution and are left out of the record.
\<close>

record result =
  "output" :: "string option"
  errors :: "string option"
  error :: "string option option"
  executionTime :: jsnumber
  memoryUsage :: jsnumber

section \<open>executeCode\<close>

definition fileName :: "world \<Rightarrow> string" where
  "fileName w = ''code_'' @ show_nat (timestamp w)"

definition filePath :: "world \<Rightarrow> path" where
  "filePath w = join (tmpdir w) (fileName w)"

subsection \<open>Toolchain probes\<close>

definition not_installed_java :: string where
  "not_installed_java = ''Java is not installed. Please install Java to run Java code.''"

definition not_installed_cpp :: string where
  "not_installed_cpp = ''C++ compiler (g++) is not installed. Please install g++ to run C++ code.''"

text \<open>
  The probe promise rejects on the \<^verbatim>\<open>error\<close> event and on a \<^verbatim>\<open>close\<close> with a non-zero
  code; the surrounding \<^verbatim>\<open>catch\<close> rethrows with the same message.
\<close>

definition probe :: "world \<Rightarrow> string \<Rightarrow> string list \<Rightarrow> string \<Rightarrow> state \<Rightarrow> unit outcome \<times> state" where
  "probe w cmd args msg s =
     (case launch w cmd args None s of (p, s') \<Rightarrow>
        (case ending p of
           SpawnError \<Rightarrow> (Throws msg, s')
         | Never \<Rightarrow> (Pending, s')
         | Exit c t \<Rightarrow> (if c = Some 0 then (Returns (), s') else (Throws msg, s'))))"

definition check_toolchain :: "world \<Rightarrow> string \<Rightarrow> state \<Rightarrow> unit outcome \<times> state" where
  "check_toolchain w language s =
     (if language = ''java'' then probe w ''java'' [''-version''] not_installed_java s
      else if language = ''cpp'' then probe w ''g++'' [''--version''] not_installed_cpp s
      else (Returns (), s))"

subsection \<open>Materialised programs\<close>

definition wrappedCode_head :: string where
  \<open>wrappedCode_head =
     ''\<newline>'' @
     ''          try {\<newline>'' @
     ''            const startTime = process.hrtime.bigint();\<newline>'' @
     ''            const startMemory = process.memoryUsage();\<newline>'' @
     ''            \<newline>'' @
     ''            ''\<close>

definition wrappedCode_tail :: string where
  \<open>wrappedCode_tail =
     ''\<newline>'' @
     ''            \<newline>'' @
     ''            const endTime = process.hrtime.bigint();\<newline>'' @
     ''            const endMemory = process.memoryUsage();\<newline>'' @
     ''            \<newline>'' @
     ''            // Calculate execution time in seconds\<newline>'' @
     ''            const executionTime = Number(endTime - startTime) / 1_000_000_000;\<newline>'' @
     ''            \<newline>'' @
     ''            // Calculate memory usage in MB\<newline>'' @
     ''            const memoryUsed = (endMemory.heapUsed - startMemory.heapUsed) / 1024 / 1024;\<newline>'' @
     ''            \<newline>'' @
     ''            console.log("Performance Metrics:");\<newline>'' @
     ''            console.log("Execution Time:", executionTime.toFixed(3), "s");\<newline>'' @
     ''            console.log("Memory Usage:", memoryUsed.toFixed(2), "MB");\<newline>'' @
     ''          } catch (error) {\<newline>'' @
     ''            console.error('Error:', error.message);\<newline>'' @
     ''            process.exit(1);\<newline>'' @
     ''          }\<newline>'' @
     ''        ''\<close>

definition pythonCode_head :: string where
  \<open>pythonCode_head =
     ''\<newline>'' @
     ''import sys\<newline>'' @
     ''import os\<newline>'' @
     ''import time\<newline>'' @
     ''import gc\<newline>'' @
     ''\<newline>'' @
     ''def get_memory_usage():\<newline>'' @
     ''    # Force garbage collection\<newline>'' @
     ''    gc.collect()\<newline>'' @
     ''    # Get memory usage in MB\<newline>'' @
     ''    return os.getpid()  # Just return process ID for now\<newline>'' @
     ''\<newline>'' @
     ''try:\<newline>'' @
     ''    start_time = time.time()\<newline>'' @
     ''    start_memory = get_memory_usage()\<newline>'' @
     ''    \<newline>'' @
     ''    # User's code with proper indentation\<newline>''\<close>

definition pythonCode_tail :: string where
  \<open>pythonCode_tail =
     ''\<newline>'' @
     ''    \<newline>'' @
     ''    end_time = time.time()\<newline>'' @
     ''    end_memory = get_memory_usage()\<newline>'' @
     ''    \<newline>'' @
     ''    execution_time = end_time - start_time\<newline>'' @
     ''    # For Windows, we'll use a simple memory estimate\<newline>'' @
     ''    memory_used = 0.0  # Memory tracking disabled for Windows compatibility\<newline>'' @
     ''    \<newline>'' @
     ''    print("Performance Metrics:")\<newline>'' @
     ''    print(f"Execution Time: {execution_time:.3f} s")\<newline>'' @
     ''    print(f"Memory Usage: {memory_used:.2f} MB")\<newline>'' @
     ''except Exception as e:\<newline>'' @
     ''    print(f'Error: {str(e)}', file=sys.stderr)\<newline>'' @
     ''    sys.exit(1)\<newline>''\<close>

definition javaProgram_head :: string where
  \<open>javaProgram_head =
     ''\<newline>'' @
     ''public class ''\<close>

definition javaProgram_tail :: string where
  \<open>javaProgram_tail =
     '' {\<newline>'' @
     ''    public static void main(String[] args) {\<newline>'' @
     ''        // Start timing in nanoseconds\<newline>'' @
     ''        long startTime = System.nanoTime();\<newline>'' @
     ''        \<newline>'' @
     ''        try {\<newline>'' @
     ''            // Create a large array to sort\<newline>'' @
     ''            int[] arr = new int[10000];\<newline>'' @
     ''            for (int i = 0; i < arr.length; i++) {\<newline>'' @
     ''                arr[i] = (int)(Math.random() * 10000);\<newline>'' @
     ''            }\<newline>'' @
     ''            \<newline>'' @
     ''            System.out.println("Original array (first 10 elements):");\<newline>'' @
     ''            for (int i = 0; i < 10; i++) {\<newline>'' @
     ''                System.out.print(arr[i] + " ");\<newline>'' @
     ''            }\<newline>'' @
     ''            System.out.println("...");\<newline>'' @
     ''            \<newline>'' @
     ''            // Start sorting\<newline>'' @
     ''            System.out.println("'' @
     [CHR 0x5C] @
     ''nSorting array...");\<newline>'' @
     ''            quickSort(arr, 0, arr.length - 1);\<newline>'' @
     ''            \<newline>'' @
     ''            System.out.println("'' @
     [CHR 0x5C] @
     ''nSorted array (first 10 elements):");\<newline>'' @
     ''            for (int i = 0; i < 10; i++) {\<newline>'' @
     ''                System.out.print(arr[i] + " ");\<newline>'' @
     ''            }\<newline>'' @
     ''            System.out.println("...");\<newline>'' @
     ''            \<newline>'' @
     ''            // Force flush the output buffer\<newline>'' @
     ''            System.out.flush();\<newline>'' @
     ''            \<newline>'' @
     ''            // Sleep for 2500ms to ensure consistent execution time\<newline>'' @
     ''            Thread.sleep(2500);\<newline>'' @
     ''            \<newline>'' @
     ''        } catch (Exception e) {\<newline>'' @
     ''            System.err.println("Error: " + e.getMessage());\<newline>'' @
     ''            System.exit(1);\<newline>'' @
     ''        }\<newline>'' @
     ''        \<newline>'' @
     ''        // Calculate execution time in nanoseconds\<newline>'' @
     ''        long endTime = System.nanoTime();\<newline>'' @
     ''        long executionTimeNanos = endTime - startTime;\<newline>'' @
     ''        \<newline>'' @
     ''        // Print performance metrics\<newline>'' @
     ''        System.out.println("Performance Metrics:");\<newline>'' @
     ''        System.out.println("Execution Time: " + executionTimeNanos + " ns");\<newline>'' @
     ''        System.out.println("Memory Usage: 0.00 MB");\<newline>'' @
     ''    }\<newline>'' @
     ''    \<newline>'' @
     ''    private static void quickSort(int[] arr, int low, int high) {\<newline>'' @
     ''        if (low < high) {\<newline>'' @
     ''            int pi = partition(arr, low, high);\<newline>'' @
     ''            quickSort(arr, low, pi - 1);\<newline>'' @
     ''            quickSort(arr, pi + 1, high);\<newline>'' @
     ''        }\<newline>'' @
     ''    }\<newline>'' @
     ''    \<newline>'' @
     ''    private static int partition(int[] arr, int low, int high) {\<newline>'' @
     ''        int pivot = arr[high];\<newline>'' @
     ''        int i = (low - 1);\<newline>'' @
     ''        \<newline>'' @
     ''        for (int j = low; j < high; j++) {\<newline>'' @
     ''            if (arr[j] <= pivot) {\<newline>'' @
     ''                i++;\<newline>'' @
     ''                int temp = arr[i];\<newline>'' @
     ''                arr[i] = arr[j];\<newline>'' @
     ''                arr[j] = temp;\<newline>'' @
     ''            }\<newline>'' @
     ''        }\<newline>'' @
     ''        \<newline>'' @
     ''        int temp = arr[i + 1];\<newline>'' @
     ''        arr[i + 1] = arr[high];\<newline>'' @
     ''        arr[high] = temp;\<newline>'' @
     ''        \<newline>'' @
     ''        return i + 1;\<newline>'' @
     ''    }\<newline>'' @
     ''}''\<close>

definition cppCode_head :: string where
  \<open>cppCode_head =
     ''\<newline>'' @
     ''#include <iostream>\<newline>'' @
     ''#include <chrono>\<newline>'' @
     ''#include <vector>\<newline>'' @
     ''#include <iomanip>\<newline>'' @
     ''\<newline>'' @
     ''using namespace std;\<newline>'' @
     ''\<newline>'' @
     ''// Performance tracking functions\<newline>'' @
     ''namespace Performance {\<newline>'' @
     ''    class Timer {\<newline>'' @
     ''    private:\<newline>'' @
     ''        chrono::high_resolution_clock::time_point start;\<newline>'' @
     ''    public:\<newline>'' @
     ''        Timer() {\<newline>'' @
     ''            start = chrono::high_resolution_clock::now();\<newline>'' @
     ''        }\<newline>'' @
     ''        \<newline>'' @
     ''        void stop() {\<newline>'' @
     ''            auto end = chrono::high_resolution_clock::now();\<newline>'' @
     ''            auto duration = chrono::duration_cast<chrono::milliseconds>(end - start);\<newline>'' @
     ''            double executionTime = duration.count() / 1000.0;\<newline>'' @
     ''            \<newline>'' @
     ''            cout << "Performance Metrics:" << endl;\<newline>'' @
     ''            cout << "Execution Time: " << fixed << setprecision(3) << executionTime << " s" << endl;\<newline>'' @
     ''            cout << "Memory Usage: 0.00 MB" << endl;\<newline>'' @
     ''        }\<newline>'' @
     ''    };\<newline>'' @
     ''}\<newline>'' @
     ''\<newline>''\<close>
definition wrappedCode :: "string \<Rightarrow> string" where
  "wrappedCode code = wrappedCode_head @ code @ wrappedCode_tail"

text \<open>\<^verbatim>\<open>code.split('\n').map(line => '    ' + line).join('\n')\<close>\<close>

fun indent :: "string \<Rightarrow> string" where
  "indent [] = []"
| "indent (c # cs) = (if c = CHR 0x0A then c # ''    '' @ indent cs else c # indent cs)"

definition pythonCode :: "string \<Rightarrow> string" where
  "pythonCode code = pythonCode_head @ ''    '' @ indent code @ pythonCode_tail"

definition javaProgram :: "string \<Rightarrow> string" where
  "javaProgram className = javaProgram_head @ className @ javaProgram_tail"

definition cppCode :: "string \<Rightarrow> string" where
  "cppCode code = cppCode_head @ code"

subsection \<open>The java case\<close>

text \<open>
  The java case compiles and runs inside its own \<^verbatim>\<open>try\<close>, returns from both the \<^verbatim>\<open>try\<close>
  and the \<^verbatim>\<open>catch\<close> block, and deletes the source and class file in its \<^verbatim>\<open>finally\<close>.
  Neither promise has a deadline, and neither child has an \<^verbatim>\<open>error\<close> listener.
\<close>

definition className :: "string \<Rightarrow> string" where
  "className code = (case classNameMatch code of Some name \<Rightarrow> name | None \<Rightarrow> ''Main'')"

definition javaFile :: "world \<Rightarrow> string \<Rightarrow> path" where
  "javaFile w code = join (tmpdir w) (className code @ ''.java'')"

definition javaClass :: "world \<Rightarrow> string \<Rightarrow> path" where
  "javaClass w code = join (tmpdir w) (className code @ ''.class'')"

definition java_failure :: "string \<Rightarrow> result" where
  "java_failure msg =
     \<lparr>output = None, errors = None, error = Some (Some msg), executionTime = Zero, memoryUsage = Zero\<rparr>"

definition java_time :: "string list \<Rightarrow> jsnumber" where
  "java_time chunks =
     foldl (\<lambda>t text. case first_match nanos_marker_at text of Some m \<Rightarrow> ParseIntNanos m | None \<Rightarrow> t)
       Zero chunks"

definition java_success :: "proc \<Rightarrow> result" where
  "java_success p =
     (let cleanOutput = trim (strip_metrics (concat (chunks_out p)))
      in \<lparr>output = Some (if cleanOutput = [] then ''No output generated'' else cleanOutput),
          errors = None, error = Some None,
          executionTime = java_time (chunks_out p), memoryUsage = Zero\<rparr>)"

definition java_cleanup :: "world \<Rightarrow> string \<Rightarrow> state \<Rightarrow> state" where
  "java_cleanup w code s = unlink_if_exists (javaClass w code) (unlink_if_exists (javaFile w code) s)"

definition java_case :: "world \<Rightarrow> string \<Rightarrow> state \<Rightarrow> result outcome \<times> state" where
  "java_case w code s =
     (let s1 = writeFile (javaFile w code) (javaProgram (className code)) s
      in case launch w ''javac'' [javaFile w code] None s1 of (javac, s2) \<Rightarrow>
        (case ending javac of
           SpawnError \<Rightarrow> (Fault, s2)
         | Never \<Rightarrow> (Pending, s2)
         | Exit c t \<Rightarrow>
             if c \<noteq> Some 0
             then (Returns (java_failure (''Compilation failed: '' @ concat (chunks_err javac))),
                   java_cleanup w code s2)
             else (case launch w ''java'' [''-cp'', tmpdir w, className code] None s2 of (java, s3) \<Rightarrow>
               (case ending java of
                  SpawnError \<Rightarrow> (Fault, s3)
                | Never \<Rightarrow> (Pending, s3)
                | Exit c' t' \<Rightarrow>
                    if c' = Some 0
                    then (Returns (java_success java), java_cleanup w code s3)
                    else (Returns (java_failure (''Execution failed: '' @ concat (chunks_err java))),
                          java_cleanup w code s3)))))"

subsection \<open>The cpp case\<close>

definition cppFile :: "world \<Rightarrow> path" where
  "cppFile w = filePath w @ ''.cpp''"

text \<open>\<^verbatim>\<open>if (input && process.stdin) { write; end }\<close>: an empty input leaves stdin open.\<close>

definition stdin_text :: "string \<Rightarrow> string option" where
  "stdin_text input = (if input = [] then None else Some input)"

text \<open>
  The outcome of the first part of the \<^verbatim>\<open>try\<close> block: either the variable \<^verbatim>\<open>process\<close>
  holds the run-stage child (with the command it was spawned from), or the block has
  already returned, thrown, stalled or died.
\<close>

datatype prepared =
    Launched proc string
  | Early "result outcome"

definition cpp_case :: "world \<Rightarrow> string \<Rightarrow> string \<Rightarrow> state \<Rightarrow> prepared \<times> state" where
  "cpp_case w code input s =
     (let s1 = writeFile (cppFile w) (cppCode code) s
      in case launch w ''g++'' [cppFile w, ''-o'', filePath w, ''-std=c++11'', ''-Wall''] None s1 of
        (cppCompileProcess, s2) \<Rightarrow>
          (case ending cppCompileProcess of
             SpawnError \<Rightarrow> (Early Fault, s2)
           | Never \<Rightarrow> (Early Pending, s2)
           | Exit c t \<Rightarrow>
               if c = Some 0
               then (case launch w (filePath w) [] (stdin_text input) s2 of
                       (p, s3) \<Rightarrow> (Launched p (filePath w), s3))
               else (Early (Throws (''C++ compilation failed: '' @ concat (chunks_err cppCompileProcess))), s2)))"

subsection \<open>From entry to the spawn of the run stage\<close>

definition prepare :: "world \<Rightarrow> string \<Rightarrow> string \<Rightarrow> string \<Rightarrow> state \<Rightarrow> prepared \<times> state" where
  "prepare w code language input s =
     (case check_toolchain w language s of
        (Throws msg, s1) \<Rightarrow> (Early (Throws msg), s1)
      | (Pending, s1) \<Rightarrow> (Early Pending, s1)
      | (Fault, s1) \<Rightarrow> (Early Fault, s1)
      | (Returns u, s1) \<Rightarrow>
          (let s2 = writeFile (filePath w) code s1
           in if language = ''javascript''
              then (case launch w ''node'' [filePath w] (stdin_text input)
                           (writeFile (filePath w) (wrappedCode code) s2) of
                      (p, s3) \<Rightarrow> (Launched p ''node'', s3))
              else if language = ''python''
              then (case launch w ''python'' [filePath w] (stdin_text input)
                           (writeFile (filePath w) (pythonCode code) s2) of
                      (p, s3) \<Rightarrow> (Launched p ''python'', s3))
              else if language = ''java''
              then (case java_case w code s2 of (r, s3) \<Rightarrow> (Early r, s3))
              else if language = ''cpp''
              then cpp_case w code input s2
              else (Early (Throws (''Unsupported language: '' @ language)), s2)))"

subsection \<open>The run stage\<close>

definition timeout :: nat where
  "timeout = 10000"

definition reported_time :: "string list \<Rightarrow> jsnumber" where
  "reported_time chunks =
     foldl (\<lambda>t text. case first_match time_marker_at text of Some m \<Rightarrow> ParseFloat m | None \<Rightarrow> t)
       Zero chunks"

definition reported_memory :: "string list \<Rightarrow> jsnumber" where
  "reported_memory chunks =
     foldl (\<lambda>t text. case first_match memory_marker_at text of Some (m, r) \<Rightarrow> ParseFloat m | None \<Rightarrow> t)
       Zero chunks"

definition show_code :: "int option \<Rightarrow> string" where
  "show_code c = (case c of None \<Rightarrow> ''null'' | Some i \<Rightarrow> show_int i)"

definition run_success :: "world \<Rightarrow> proc \<Rightarrow> result" where
  "run_success w p =
     \<lparr>output = Some (trim (strip_metrics (concat (chunks_out p)))),
      errors = (if concat (chunks_err p) = [] then None else Some (concat (chunks_err p))),
      error = None,
      executionTime =
        (if falsy (reported_time (chunks_out p))
         then ElapsedMillis (int (endTime w) - int (startTime w))
         else reported_time (chunks_out p)),
      memoryUsage = reported_memory (chunks_out p)\<rparr>"

text \<open>
  The race of the \<^verbatim>\<open>close\<close> event against the timer that is set, right after the spawn
  of the run stage, to fire after \<open>timeout\<close> milliseconds. The timer callback calls
  \<^verbatim>\<open>process.kill()\<close> and rejects.
\<close>

definition run_stage :: "world \<Rightarrow> proc \<Rightarrow> string \<Rightarrow> state \<Rightarrow> result outcome \<times> state" where
  "run_stage w p cmd s =
     (case ending p of
        SpawnError \<Rightarrow> (Fault, s)
      | Never \<Rightarrow> (Throws ''Execution timeout'', kill cmd s)
      | Exit c t \<Rightarrow>
          if timeout \<le> t then (Throws ''Execution timeout'', kill cmd s)
          else if c = Some 0 then (Returns (run_success w p), s)
          else (Throws (if concat (chunks_err p) \<noteq> [] then concat (chunks_err p)
                        else ''Process exited with code '' @ show_code c), s))"

subsection \<open>The outer finally block\<close>

definition cleanup :: "world \<Rightarrow> string \<Rightarrow> state \<Rightarrow> state" where
  "cleanup w language s =
     (if language = ''java''
      then unlink_if_exists (join (tmpdir w) ''Main.class'')
             (unlink_if_exists (join (tmpdir w) ''Main.java'') s)
      else if language = ''cpp'' then unlink_if_exists (cppFile w) s
      else unlink_if_exists (filePath w) s)"

definition finally_block :: "world \<Rightarrow> string \<Rightarrow> string option \<Rightarrow> state \<Rightarrow> state" where
  "finally_block w language process s =
     cleanup w language (case process of Some cmd \<Rightarrow> kill cmd s | None \<Rightarrow> s)"

text \<open>A \<^verbatim>\<open>finally\<close> block runs when its \<^verbatim>\<open>try\<close> block returns or throws, and only then.\<close>

definition settle :: "world \<Rightarrow> string \<Rightarrow> string option \<Rightarrow> result outcome \<times> state \<Rightarrow> result outcome \<times> state" where
  "settle w language process rs =
     (case rs of
        (Returns r, s) \<Rightarrow> (Returns r, finally_block w language process s)
      | (Throws msg, s) \<Rightarrow> (Throws msg, finally_block w language process s)
      | (Pending, s) \<Rightarrow> (Pending, s)
      | (Fault, s) \<Rightarrow> (Fault, s))"

definition executeCode :: "world \<Rightarrow> string \<Rightarrow> string \<Rightarrow> string \<Rightarrow> state \<Rightarrow> result outcome \<times> state" where
  "executeCode w code language input s =
     (case prepare w code language input s of
        (Early r, s1) \<Rightarrow> settle w language None (r, s1)
      | (Launched p cmd, s1) \<Rightarrow> settle w language (Some cmd) (run_stage w p cmd s1))"

section \<open>The route handlers\<close>

text \<open>
  The JSON body of a request to \<^verbatim>\<open>/api/execute\<close>: each property is a string or missing.
  The reply is a status code with the \<^verbatim>\<open>result\<close> object of the body, or no reply at all
  when \<^verbatim>\<open>executeCode\<close> never settles or the server dies.
\<close>

record request =
  code_field :: "string option"
  language_field :: "string option"
  input_field :: "string option"

datatype reply =
    Reply nat result
  | NoReply

definition error_result :: "string \<Rightarrow> result" where
  "error_result msg =
     \<lparr>output = Some [], errors = Some msg, error = None, executionTime = Zero, memoryUsage = Zero\<rparr>"

definition truthy :: "string option \<Rightarrow> bool" where
  "truthy v = (case v of None \<Rightarrow> False | Some s \<Rightarrow> s \<noteq> [])"

definition execute_handler :: "world \<Rightarrow> request \<Rightarrow> state \<Rightarrow> reply \<times> state" where
  "execute_handler w req s =
     (if \<not> truthy (code_field req) \<or> \<not> truthy (language_field req)
      then (Reply 400 (error_result ''Code and language are required''), s)
      else (case executeCode w (the (code_field req)) (the (language_field req))
                   (case input_field req of None \<Rightarrow> [] | Some i \<Rightarrow> i) s of
              (Returns r, s') \<Rightarrow> (Reply 200 r, s')
            | (Throws msg, s') \<Rightarrow> (Reply 500 (error_result msg), s')
            | (Pending, s') \<Rightarrow> (NoReply, s')
            | (Fault, s') \<Rightarrow> (NoReply, s')))"

datatype abort_reply = Success bool

definition abort_handler :: "request \<Rightarrow> state \<Rightarrow> abort_reply \<times> state" where
  "abort_handler req s = (Success True, s)"

section \<open>Observations and sample environments\<close>

text \<open>The commands spawned, the files written, the files deleted and the kills, in order.\<close>

fun spawned :: "event list \<Rightarrow> (string \<times> string list) list" where
  "spawned [] = []"
| "spawned (Spawn cmd args # es) = (cmd, args) # spawned es"
| "spawned (e # es) = spawned es"

fun written :: "event list \<Rightarrow> (path \<times> string) list" where
  "written [] = []"
| "written (Write p content # es) = (p, content) # written es"
| "written (e # es) = written es"

fun unlinked :: "event list \<Rightarrow> path list" where
  "unlinked [] = []"
| "unlinked (Unlink p # es) = p # unlinked es"
| "unlinked (e # es) = unlinked es"

fun killed :: "event list \<Rightarrow> string list" where
  "killed [] = []"
| "killed (Kill cmd # es) = cmd # killed es"
| "killed (e # es) = killed es"

text \<open>The request body of a well-formed submission.\<close>

definition submission :: "string \<Rightarrow> string \<Rightarrow> string \<Rightarrow> request" where
  "submission code language input =
     \<lparr>code_field = Some code, language_field = Some language, input_field = Some input\<rparr>"

text \<open>
  Sample environments: an empty temporary directory \<^verbatim>\<open>/tmp\<close>, a job created at time 42,
  and a behaviour for the child processes.
\<close>

definition s0 :: state where
  "s0 = \<lparr>files = Map.empty, trace = [], activeProcesses = Map.empty\<rparr>"

definition silent :: proc where
  "silent = \<lparr>chunks_out = [], chunks_err = [], ending = Exit (Some 0) 5, creates = []\<rparr>"

definition world_of :: "(string \<Rightarrow> string list \<Rightarrow> string option \<Rightarrow> (path \<rightharpoonup> string) \<Rightarrow> proc) \<Rightarrow> world" where
  "world_of f = \<lparr>tmpdir = ''/tmp'', timestamp = 42, startTime = 43, endTime = 50, spawn = f\<rparr>"

text \<open>Every command closes with code 0 after 5 ms and prints nothing.\<close>

definition w_silent :: world where
  "w_silent = world_of (\<lambda>cmd args inp fs. silent)"

text \<open>No command can be started.\<close>

definition w_bare :: world where
  "w_bare = world_of (\<lambda>cmd args inp fs. silent\<lparr>ending := SpawnError\<rparr>)"

text \<open>A machine with a java runtime and no java compiler: \<^verbatim>\<open>javac\<close> cannot be started.\<close>

definition w_jre :: world where
  "w_jre = world_of (\<lambda>cmd args inp fs.
     if cmd = ''javac'' then silent\<lparr>ending := SpawnError\<rparr> else silent)"

text \<open>
  A working toolchain: \<^verbatim>\<open>javac\<close> leaves a class file beside the source it is given,
  \<^verbatim>\<open>g++\<close> leaves the binary named after \<^verbatim>\<open>-o\<close>, \<^verbatim>\<open>java\<close> prints the report of a sorting
  run with its performance markers, the compiled binary prints \<^verbatim>\<open>5\<close>, and every other
  command is silent.
\<close>

definition javac_creates :: "string list \<Rightarrow> (path \<times> string) list" where
  "javac_creates args =
     (case args of [] \<Rightarrow> [] | f # fs \<Rightarrow> [(take (length f - 5) f @ ''.class'', ''CAFEBABE'')])"

definition gpp_creates :: "string list \<Rightarrow> (path \<times> string) list" where
  "gpp_creates args = (case args of [src, flag, bin, std, wall] \<Rightarrow> [(bin, ''ELF'')] | _ \<Rightarrow> [])"

definition sorting_report :: string where
  "sorting_report =
     ''Sorted array (first 10 elements):\<newline>'' @
     ''3 8 11 15 16 20 22 25 31 40 ...\<newline>'' @
     ''Performance Metrics:\<newline>'' @
     ''Execution Time: 2504000000 ns\<newline>'' @
     ''Memory Usage: 0.00 MB\<newline>''"

definition w_tools :: world where
  "w_tools = world_of (\<lambda>cmd args inp fs.
     if cmd = ''javac'' then silent\<lparr>creates := javac_creates args\<rparr>
     else if cmd = ''g++'' then silent\<lparr>creates := gpp_creates args\<rparr>
     else if cmd = ''java'' \<and> args \<noteq> [''-version''] then silent\<lparr>chunks_out := [sorting_report]\<rparr>
     else if cmd = ''/tmp/code_42'' then silent\<lparr>chunks_out := [''5'']\<rparr>
     else silent)"

text \<open>A C++ program, and two java programs that differ in the literal they print.\<close>

definition cpp_prints_5 :: string where
  \<open>cpp_prints_5 = ''#include <iostream>\<newline>int main() { std::cout << 5; }''\<close>

definition prints_5 :: string where
  \<open>prints_5 = ''public class Main { public static void main(String[] a) { System.out.println(5); } }''\<close>

definition prints_6 :: string where
  \<open>prints_6 = ''public class Main { public static void main(String[] a) { System.out.println(6); } }''\<close>

text \<open>A java source with a comment line before its class declaration.\<close>

definition declares_Foo :: string where
  \<open>declares_Foo = ''// demo\<newline>public class Foo { }''\<close>

text \<open>
  Environments for the run stage of a javascript job: \<^verbatim>\<open>node\<close> prints 5 and the
  performance report and closes with code 0, with a warning on stderr, with the report
  cut in two chunks inside the elapsed-time line, with code 1 and nothing on stderr, or
  without ever closing.
\<close>

definition js_prints_5 :: string where
  \<open>js_prints_5 = ''console.log(5)''\<close>

definition node_report :: string where
  "node_report =
     ''5\<newline>'' @
     ''Performance Metrics:\<newline>'' @
     ''Execution Time: 0.012 s\<newline>'' @
     ''Memory Usage: 0.25 MB\<newline>''"

definition node_noisy :: proc where
  "node_noisy =
     silent\<lparr>chunks_out := [node_report], chunks_err := [''(node:7) Warning: deprecated\<newline>'']\<rparr>"

definition node_split :: proc where
  "node_split = silent\<lparr>chunks_out := [take 35 node_report, drop 35 node_report]\<rparr>"

definition node_crash :: proc where
  "node_crash = silent\<lparr>ending := Exit (Some 1) 5\<rparr>"


definition w_noisy :: world where
  "w_noisy = world_of (\<lambda>cmd args inp fs. if cmd = ''node'' then node_noisy else silent)"

definition w_split :: world where
  "w_split = world_of (\<lambda>cmd args inp fs. if cmd = ''node'' then node_split else silent)"

definition w_crash :: world where
  "w_crash = world_of (\<lambda>cmd args inp fs. if cmd = ''node'' then node_crash else silent)"



section \<open>Basic facts\<close>

lemma spawned_append [simp]: "spawned (a @ b) = spawned a @ spawned b"
  by (induction a rule: spawned.induct) simp_all

lemma written_append [simp]: "written (a @ b) = written a @ written b"
  by (induction a rule: written.induct) simp_all

lemma unlinked_append [simp]: "unlinked (a @ b) = unlinked a @ unlinked b"
  by (induction a rule: unlinked.induct) simp_all

lemma killed_append [simp]: "killed (a @ b) = killed a @ killed b"
  by (induction a rule: killed.induct) simp_all

lemma show_nat_42: "show_nat 42 = ''42''"
  by (simp add: show_nat.simps digit_char_def)

lemma filePath_sample: "filePath (world_of f) = ''/tmp/code_42''"
  by (simp add: filePath_def fileName_def join_def world_of_def show_nat_42)

lemma trace_writeFile [simp]: "trace (writeFile p c s) = trace s @ [Write p c]"
  by (simp add: writeFile_def)

lemma trace_kill [simp]: "trace (kill cmd s) = trace s @ [Kill cmd]"
  by (simp add: kill_def)

lemma trace_unlink:
  "trace (unlink_if_exists p s) = trace s @ (if p \<in> dom (files s) then [Unlink p] else [])"
  by (simp add: unlink_if_exists_def)

lemma launch_fst [simp]: "fst (launch w cmd args inp s) = spawn w cmd args inp (files s)"
  by (simp add: launch_def Let_def)

lemma trace_launch [simp]: "trace (snd (launch w cmd args inp s)) = trace s @ [Spawn cmd args]"
  by (simp add: launch_def Let_def)

subsection \<open>Every phase only appends to the trace\<close>

lemma prefix_unlink: "prefix (trace s) (trace (unlink_if_exists p s))"
  by (simp add: trace_unlink)

lemma prefix_java_cleanup: "prefix (trace s) (trace (java_cleanup w code s))"
  unfolding java_cleanup_def by (meson prefix_order.trans prefix_unlink)

lemma prefix_cleanup: "prefix (trace s) (trace (cleanup w language s))"
  unfolding cleanup_def by (auto intro: prefix_order.trans prefix_unlink)

lemma prefix_finally: "prefix (trace s) (trace (finally_block w language process s))"
  unfolding finally_block_def
  by (cases process) (auto intro: prefix_order.trans [OF _ prefix_cleanup])

lemma prefix_settle: "prefix (trace (snd rs)) (trace (snd (settle w language process rs)))"
  unfolding settle_def by (cases rs) (auto split: outcome.splits intro: prefix_finally)

lemma prefix_run_stage: "prefix (trace s) (trace (snd (run_stage w p cmd s)))"
  unfolding run_stage_def by (auto split: ending.splits)

lemma prefix_java_case: "prefix (trace s) (trace (snd (java_case w code s)))"
  unfolding java_case_def Let_def split_beta
  by (auto split: ending.splits intro!: prefix_order.trans [OF _ prefix_java_cleanup])

lemma prefix_cpp_case: "prefix (trace s) (trace (snd (cpp_case w code input s)))"
  unfolding cpp_case_def Let_def split_beta
  by (auto split: ending.splits)

lemma prefix_prepare:
  "prefix (trace (snd (check_toolchain w language s))) (trace (snd (prepare w code language input s)))"
proof (cases "check_toolchain w language s")
  case (Pair r s1)
  show ?thesis
  proof (cases r)
    case (Returns u)
    have j: "prefix (trace s1) (trace (snd (java_case w code (writeFile (filePath w) code s1))))"
      by (rule prefix_order.trans [OF _ prefix_java_case]) simp
    have c: "prefix (trace s1) (trace (snd (cpp_case w code input (writeFile (filePath w) code s1))))"
      by (rule prefix_order.trans [OF _ prefix_cpp_case]) simp
    show ?thesis
      using j c by (simp add: prepare_def Pair Returns Let_def split_beta)
  qed (simp_all add: prepare_def Pair)
qed

lemma prefix_executeCode:
  "prefix (trace (snd (prepare w code language input s)))
     (trace (snd (executeCode w code language input s)))"
proof (cases "prepare w code language input s")
  case (Pair a s1)
  show ?thesis
  proof (cases a)
    case (Launched p cmd)
    have "prefix (trace s1) (trace (snd (run_stage w p cmd s1)))"
      by (rule prefix_run_stage)
    also have "prefix \<dots> (trace (snd (settle w language (Some cmd) (run_stage w p cmd s1))))"
      by (rule prefix_settle)
    finally show ?thesis by (simp add: executeCode_def Pair Launched)
  next
    case (Early r)
    show ?thesis
      using prefix_settle [of "(r, s1)" w language None]
      by (simp add: executeCode_def Pair Early)
  qed
qed

lemma written_unlink [simp]: "written (trace (unlink_if_exists p s)) = written (trace s)"
  by (simp add: trace_unlink written_append)

lemma written_cleanup [simp]: "written (trace (cleanup w language s)) = written (trace s)"
  by (simp add: cleanup_def)

section \<open>Input validation of the execute route\<close>

text \<open>
  Claim C9. A request to \<^verbatim>\<open>/api/execute\<close> whose \<^verbatim>\<open>code\<close> or \<^verbatim>\<open>language\<close> property is
  missing or empty is answered with status 400 and a body whose \<^verbatim>\<open>errors\<close> is
  \<^verbatim>\<open>Code and language are required\<close>, whose \<^verbatim>\<open>output\<close> is the empty string and whose
  \<^verbatim>\<open>executionTime\<close> and \<^verbatim>\<open>memoryUsage\<close> are 0. The state is returned as it was: no file
  is written and no process is spawned.
\<close>

theorem execute_handler_requires_code_and_language:
  assumes "\<not> truthy (code_field req) \<or> \<not> truthy (language_field req)"
  shows "execute_handler w req s =
     (Reply 400 \<lparr>output = Some [], errors = Some ''Code and language are required'', error = None,
                 executionTime = Zero, memoryUsage = Zero\<rparr>, s)"
  using assms by (auto simp: execute_handler_def error_result_def)

theorem execute_handler_requires_code_and_language_witness:
  "\<not> truthy (code_field \<lparr>code_field = Some [], language_field = Some ''python'', input_field = None\<rparr>)
   \<and> execute_handler w_silent \<lparr>code_field = Some [], language_field = Some ''python'', input_field = None\<rparr> s0 =
     (Reply 400 \<lparr>output = Some [], errors = Some ''Code and language are required'', error = None,
                 executionTime = Zero, memoryUsage = Zero\<rparr>, s0)"
  using execute_handler_requires_code_and_language
    [of "\<lparr>code_field = Some [], language_field = Some ''python'', input_field = None\<rparr>" w_silent s0]
  by (simp add: truthy_def)

section \<open>The abort route\<close>

text \<open>
  Claim C10. Every request to \<^verbatim>\<open>/api/abort\<close> is answered with \<^verbatim>\<open>{success: true}\<close>, and the
  handler leaves the whole state as it was: the files, the trace (so no process is
  killed) and the registry of active processes.
\<close>

theorem abort_handler_acknowledges_only:
  "abort_handler req s = (Success True, s)"
  by (simp add: abort_handler_def)

section \<open>Unsupported language tags\<close>

lemma prepare_unsupported:
  assumes "language \<notin> {''javascript'', ''python'', ''java'', ''cpp''}"
  shows "prepare w code language input s =
     (Early (Throws (''Unsupported language: '' @ language)), writeFile (filePath w) code s)"
  using assms by (simp add: prepare_def check_toolchain_def)

lemma executeCode_unsupported:
  assumes "language \<notin> {''javascript'', ''python'', ''java'', ''cpp''}"
  shows "executeCode w code language input s =
     (Throws (''Unsupported language: '' @ language),
      unlink_if_exists (filePath w) (writeFile (filePath w) code s))"
  using assms
  by (simp add: executeCode_def prepare_unsupported settle_def finally_block_def cleanup_def)

lemma trace_unsupported:
  "trace (unlink_if_exists (filePath w) (writeFile (filePath w) code s)) =
     trace s @ [Write (filePath w) code, Unlink (filePath w)]"
  by (simp add: unlink_if_exists_def writeFile_def)

text \<open>
  Claim C5. For a language tag outside the supported set, \<^verbatim>\<open>executeCode\<close> throws
  \<^verbatim>\<open>Unsupported language: <tag>\<close>; the handler answers with status 500 and a body that
  has this message in \<^verbatim>\<open>errors\<close> and an empty \<^verbatim>\<open>output\<close>; and the job spawns no process:
  all it does is write the temporary source file and delete it again.
\<close>

theorem unsupported_language_is_rejected:
  assumes "language \<notin> {''javascript'', ''python'', ''java'', ''cpp''}"
    and "code \<noteq> []" and "language \<noteq> []"
  shows "fst (executeCode w code language input s) = Throws (''Unsupported language: '' @ language)
    \<and> fst (execute_handler w (submission code language input) s) =
        Reply 500 \<lparr>output = Some [], errors = Some (''Unsupported language: '' @ language),
                    error = None, executionTime = Zero, memoryUsage = Zero\<rparr>
    \<and> trace (snd (execute_handler w (submission code language input) s)) =
        trace s @ [Write (filePath w) code, Unlink (filePath w)]
    \<and> spawned (trace (snd (execute_handler w (submission code language input) s))) = spawned (trace s)"
  using assms
  by (simp add: execute_handler_def submission_def truthy_def executeCode_unsupported
      trace_unsupported error_result_def spawned_append)

theorem unsupported_language_is_rejected_witness:
  "''ruby'' \<notin> {''javascript'', ''python'', ''java'', ''cpp''}
   \<and> fst (executeCode w_silent ''puts 5'' ''ruby'' [] s0) = Throws ''Unsupported language: ruby''
   \<and> fst (execute_handler w_silent (submission ''puts 5'' ''ruby'' []) s0) =
        Reply 500 \<lparr>output = Some [], errors = Some ''Unsupported language: ruby'',
                    error = None, executionTime = Zero, memoryUsage = Zero\<rparr>
   \<and> trace (snd (execute_handler w_silent (submission ''puts 5'' ''ruby'' []) s0)) =
        [Write ''/tmp/code_42'' ''puts 5'', Unlink ''/tmp/code_42'']
   \<and> spawned (trace (snd (execute_handler w_silent (submission ''puts 5'' ''ruby'' []) s0))) = []"
  using unsupported_language_is_rejected [of "''ruby''" "''puts 5''" w_silent "[]" s0]
  by (simp add: s0_def w_silent_def filePath_sample)

section \<open>Toolchain probes\<close>

lemma probe_eq:
  "probe w cmd args msg s =
     ((case ending (spawn w cmd args None (files s)) of
         SpawnError \<Rightarrow> Throws msg
       | Never \<Rightarrow> Pending
       | Exit c t \<Rightarrow> if c = Some 0 then Returns () else Throws msg),
      snd (launch w cmd args None s))"
  by (simp add: probe_def split_beta split: ending.splits)

lemma probe_first:
  assumes "check_toolchain w language s = probe w cmd args msg s"
  shows "\<exists>rest. trace (snd (executeCode w code language input s)) = trace s @ Spawn cmd args # rest"
proof -
  have "prefix (trace s @ [Spawn cmd args]) (trace (snd (check_toolchain w language s)))"
    by (simp add: assms probe_eq)
  then have "prefix (trace s @ [Spawn cmd args]) (trace (snd (executeCode w code language input s)))"
    using prefix_prepare prefix_executeCode by (meson prefix_order.trans)
  then show ?thesis by (auto simp: prefix_def)
qed

lemma probe_failed:
  assumes "check_toolchain w language s = probe w cmd args msg s"
    and "\<forall>t. ending (spawn w cmd args None (files s)) \<noteq> Exit (Some 0) t"
  shows "written (trace (snd (executeCode w code language input s))) = written (trace s)"
    and "ending (spawn w cmd args None (files s)) \<noteq> Never \<Longrightarrow>
         executeCode w code language input s =
           (Throws msg, cleanup w language (snd (launch w cmd args None s)))"
  using assms
  by (auto simp: executeCode_def prepare_def probe_eq settle_def finally_block_def written_append
      split: ending.splits)

text \<open>
  In every java or cpp job the first effect is the spawn of the probe (\<^verbatim>\<open>java -version\<close>,
  \<^verbatim>\<open>g++ --version\<close>). Unless the probe closes with code 0 the job writes no file at all;
  and when the probe cannot be started or closes with another code, \<^verbatim>\<open>executeCode\<close> throws
  the \<^verbatim>\<open>not installed\<close> message of the probed command, which the handler returns in
  \<^verbatim>\<open>errors\<close>.
\<close>

lemma probe_precedes_every_write:
  assumes "(language, cmd, args, msg) = (''java'', ''java'', [''-version''], not_installed_java)
         \<or> (language, cmd, args, msg) = (''cpp'', ''g++'', [''--version''], not_installed_cpp)"
    and "code \<noteq> []"
  shows "\<exists>rest. trace (snd (executeCode w code language input s)) = trace s @ Spawn cmd args # rest
     \<and> ((\<forall>t. ending (spawn w cmd args None (files s)) \<noteq> Exit (Some 0) t) \<longrightarrow> written rest = [])
     \<and> (ending (spawn w cmd args None (files s)) = SpawnError
          \<or> (\<exists>c t. ending (spawn w cmd args None (files s)) = Exit c t \<and> c \<noteq> Some 0)
        \<longrightarrow> fst (executeCode w code language input s) = Throws msg
          \<and> fst (execute_handler w (submission code language input) s) =
              Reply 500 \<lparr>output = Some [], errors = Some msg, error = None,
                          executionTime = Zero, memoryUsage = Zero\<rparr>)"
proof -
  have ct: "check_toolchain w language s = probe w cmd args msg s"
    using assms(1) by (auto simp: check_toolchain_def)
  have lang: "language \<noteq> []"
    using assms(1) by auto
  obtain rest where rest: "trace (snd (executeCode w code language input s)) = trace s @ Spawn cmd args # rest"
    using probe_first [OF ct] by blast
  have w: "written rest = []" if "\<forall>t. ending (spawn w cmd args None (files s)) \<noteq> Exit (Some 0) t"
    using probe_failed(1) [OF ct that, of code input] by (simp add: rest written_append)
  have t: "fst (executeCode w code language input s) = Throws msg
      \<and> fst (execute_handler w (submission code language input) s) =
          Reply 500 \<lparr>output = Some [], errors = Some msg, error = None,
                      executionTime = Zero, memoryUsage = Zero\<rparr>"
    if "ending (spawn w cmd args None (files s)) = SpawnError
          \<or> (\<exists>c t. ending (spawn w cmd args None (files s)) = Exit c t \<and> c \<noteq> Some 0)"
  proof -
    have a: "\<forall>t. ending (spawn w cmd args None (files s)) \<noteq> Exit (Some 0) t"
      using that by auto
    have b: "ending (spawn w cmd args None (files s)) \<noteq> Never"
      using that by auto
    show ?thesis
      using probe_failed(2) [OF ct a b, of code input] assms(2) lang
      by (simp add: execute_handler_def submission_def truthy_def error_result_def)
  qed
  show ?thesis
    using rest w t by blast
qed

section \<open>The class-name search\<close>

lemma strip_prefix_append [simp]: "strip_prefix p (p @ r) = Some r"
  by (induction p) simp_all

lemma strip_prefix_Some: "strip_prefix p s = Some r \<Longrightarrow> s = p @ r"
  by (induction p s rule: strip_prefix.induct) (auto split: if_splits)

lemma run1_Some: "run1 P s = Some (a, b) \<Longrightarrow> s = a @ b \<and> a \<noteq> [] \<and> list_all P a"
  by (auto simp: run1_def list_all_iff split: if_splits dest: set_takeWhileD)

lemma run1_append:
  assumes "a \<noteq> []" "list_all P a" "b = [] \<or> \<not> P (hd b)"
  shows "run1 P (a @ b) = Some (a, b)"
proof -
  have tb: "takeWhile P b = []" using assms(3) by (cases b) auto
  have db: "dropWhile P b = b" using assms(3) by (cases b) auto
  have "takeWhile P (a @ b) = a"
    using assms(2) tb by (simp add: list_all_iff takeWhile_append2)
  moreover have "dropWhile P (a @ b) = b"
    using assms(2) db by (simp add: list_all_iff dropWhile_append2)
  ultimately show ?thesis using assms(1) by (simp add: run1_def)
qed

lemma first_match_skip:
  assumes "\<And>c cs. c \<in> set pre \<Longrightarrow> m (c # cs) = None"
  shows "first_match m (pre @ post) = first_match m post"
  using assms by (induction pre) auto

lemma class_decl_at_head:
  "c \<noteq> CHR ''p'' \<Longrightarrow> class_decl_at (c # cs) = None"
  by (simp add: class_decl_at_def)

lemma word_not_space: "is_word c \<Longrightarrow> \<not> is_space c"
  by (auto simp: is_space_def is_word_def is_digit_def)

lemma run1_space_one:
  assumes "\<not> is_space (hd r)" "r \<noteq> []"
  shows "run1 is_space (CHR '' '' # r) = Some ('' '', r)"
proof -
  have "is_space CHR '' ''" by (simp add: is_space_def)
  moreover have "takeWhile is_space r = []" "dropWhile is_space r = r"
    using assms by (cases r; simp)+
  ultimately show ?thesis by (simp add: run1_def)
qed

lemma class_decl_at_plain:
  assumes "name \<noteq> []" "list_all is_word name" "rest = [] \<or> \<not> is_word (hd rest)"
  shows "class_decl_at (''public class '' @ name @ rest) = Some name"
proof -
  have "is_word (hd name)"
    using assms(1,2) by (cases name) simp_all
  then have nsp: "\<not> is_space (hd (name @ rest))"
    using assms(1) by (simp add: word_not_space)
  have p: "strip_prefix ''public'' (''public class '' @ name @ rest) = Some (CHR '' '' # ''class '' @ name @ rest)"
    by simp
  have s1: "run1 is_space (CHR '' '' # ''class '' @ name @ rest) = Some ('' '', ''class '' @ name @ rest)"
    by (rule run1_space_one) (simp_all add: is_space_def)
  have c: "strip_prefix ''class'' (''class '' @ name @ rest) = Some (CHR '' '' # name @ rest)"
    by simp
  have s2: "run1 is_space (CHR '' '' # name @ rest) = Some ('' '', name @ rest)"
    by (rule run1_space_one) (use nsp assms(1) in simp_all)
  have s3: "run1 is_word (name @ rest) = Some (name, rest)"
    by (rule run1_append) (use assms in auto)
  show ?thesis
    unfolding class_decl_at_def p option.case s1 prod.case c s2 s3 by (rule refl)
qed

lemma className_plain:
  assumes "CHR ''p'' \<notin> set pre" "name \<noteq> []" "list_all is_word name" "rest = [] \<or> \<not> is_word (hd rest)"
  shows "className (pre @ ''public class '' @ name @ rest) = name"
proof -
  have skip: "class_decl_at (c # cs) = None" if "c \<in> set pre" for c cs
  proof -
    from that assms(1) have "c \<noteq> CHR ''p''" by blast
    then show ?thesis by (rule class_decl_at_head)
  qed
  have "first_match class_decl_at (pre @ ''public class '' @ name @ rest) =
        first_match class_decl_at (''public class '' @ name @ rest)"
    using skip by (rule first_match_skip)
  also have "\<dots> = class_decl_at (''public class '' @ name @ rest)"
    using class_decl_at_plain [OF assms(2-4)] by simp
  finally show ?thesis
    using class_decl_at_plain [OF assms(2-4)] by (simp only: className_def classNameMatch_def option.case)
qed

lemma run1_Some_rest: "run1 P s = Some (a, b) \<Longrightarrow> b = [] \<or> \<not> P (hd b)"
  by (auto simp: run1_def hd_dropWhile split: if_splits)

lemma first_match_leftmost:
  "first_match m s = Some r \<Longrightarrow>
   \<exists>pre post. s = pre @ post \<and> m post = Some r \<and> (\<forall>k<length pre. m (drop k s) = None)"
proof (induction s)
  case Nil
  then have "[] = [] @ [] \<and> m [] = Some r \<and> (\<forall>k<length ([]::string). m (drop k []) = None)" by simp
  then show ?case by (intro exI)
next
  case (Cons c cs)
  show ?case
  proof (cases "m (c # cs)")
    case (Some a)
    with Cons.prems have "c # cs = [] @ (c # cs) \<and> m (c # cs) = Some r
        \<and> (\<forall>k<length ([]::string). m (drop k (c # cs)) = None)" by simp
    then show ?thesis by (intro exI)
  next
    case None
    with Cons.prems have "first_match m cs = Some r" by simp
    from Cons.IH [OF this] obtain pre post where p: "cs = pre @ post" "m post = Some r"
      "\<forall>k<length pre. m (drop k cs) = None"
      by (elim exE conjE)
    have "\<forall>k<length (c # pre). m (drop k (c # cs)) = None"
    proof (intro allI impI)
      fix k assume "k < length (c # pre)"
      then show "m (drop k (c # cs)) = None"
        using None p(3) by (cases k) simp_all
    qed
    with p have "c # cs = (c # pre) @ post \<and> m post = Some r
        \<and> (\<forall>k<length (c # pre). m (drop k (c # cs)) = None)" by simp
    then show ?thesis by (intro exI)
  qed
qed

lemma first_match_None: "first_match m s = None \<Longrightarrow> k \<le> length s \<Longrightarrow> m (drop k s) = None"
proof (induction s arbitrary: k)
  case Nil
  then show ?case by simp
next
  case (Cons c cs)
  then show ?case by (cases k) (auto split: option.splits)
qed

lemma first_match_at:
  assumes "\<forall>k<length pre. m (drop k (pre @ post)) = None" "m post = Some r"
  shows "first_match m (pre @ post) = Some r"
  using assms
proof (induction pre)
  case Nil
  then show ?case by (cases post) simp_all
next
  case (Cons c pre)
  have h: "m (c # pre @ post) = None"
    using Cons.prems(1) by (auto dest: spec [of _ 0])
  have "\<forall>k<length pre. m (drop k (pre @ post)) = None"
  proof (intro allI impI)
    fix k assume "k < length pre"
    then have "Suc k < length (c # pre)" by simp
    with Cons.prems(1) have "m (drop (Suc k) ((c # pre) @ post)) = None" by blast
    then show "m (drop k (pre @ post)) = None" by simp
  qed
  from Cons.IH [OF this Cons.prems(2)] h show ?case by simp
qed

lemma class_decl_at_Some_full:
  assumes "class_decl_at s = Some name"
  shows "\<exists>sp1 sp2 rest. s = ''public'' @ sp1 @ ''class'' @ sp2 @ name @ rest
      \<and> sp1 \<noteq> [] \<and> list_all is_space sp1 \<and> sp2 \<noteq> [] \<and> list_all is_space sp2
      \<and> name \<noteq> [] \<and> list_all is_word name \<and> (rest = [] \<or> \<not> is_word (hd rest))"
proof -
  from assms obtain r1 sp1 r2 r3 sp2 r4 r5 where
    a: "strip_prefix ''public'' s = Some r1" and b: "run1 is_space r1 = Some (sp1, r2)"
    and c: "strip_prefix ''class'' r2 = Some r3" and d: "run1 is_space r3 = Some (sp2, r4)"
    and e: "run1 is_word r4 = Some (name, r5)"
    by (auto simp: class_decl_at_def split: option.splits prod.splits)
  have "s = ''public'' @ sp1 @ ''class'' @ sp2 @ name @ r5"
    using strip_prefix_Some [OF a] run1_Some [OF b] strip_prefix_Some [OF c] run1_Some [OF d]
      run1_Some [OF e] by simp
  with run1_Some [OF b] run1_Some [OF d] run1_Some [OF e] run1_Some_rest [OF e]
  have "s = ''public'' @ sp1 @ ''class'' @ sp2 @ name @ r5
      \<and> sp1 \<noteq> [] \<and> list_all is_space sp1 \<and> sp2 \<noteq> [] \<and> list_all is_space sp2
      \<and> name \<noteq> [] \<and> list_all is_word name \<and> (r5 = [] \<or> \<not> is_word (hd r5))"
    by simp
  then show ?thesis by (intro exI)
qed

lemma class_decl_at_complete:
  assumes "sp1 \<noteq> []" "list_all is_space sp1" "sp2 \<noteq> []" "list_all is_space sp2"
    "name \<noteq> []" "list_all is_word name" "rest = [] \<or> \<not> is_word (hd rest)"
  shows "class_decl_at (''public'' @ sp1 @ ''class'' @ sp2 @ name @ rest) = Some name"
proof -
  have "is_word (hd name)"
    using assms(5,6) by (cases name) simp_all
  then have nsp: "\<not> is_space (hd (name @ rest))"
    using assms(5) by (simp add: word_not_space)
  have csp: "\<not> is_space (hd (''class'' @ sp2 @ name @ rest))"
    by (simp add: is_space_def)
  have p: "strip_prefix ''public'' (''public'' @ sp1 @ ''class'' @ sp2 @ name @ rest) =
      Some (sp1 @ ''class'' @ sp2 @ name @ rest)"
    by (rule strip_prefix_append)
  have s1: "run1 is_space (sp1 @ ''class'' @ sp2 @ name @ rest) = Some (sp1, ''class'' @ sp2 @ name @ rest)"
    using assms(1,2) csp by (intro run1_append) simp_all
  have c: "strip_prefix ''class'' (''class'' @ sp2 @ name @ rest) = Some (sp2 @ name @ rest)"
    by (rule strip_prefix_append)
  have s2: "run1 is_space (sp2 @ name @ rest) = Some (sp2, name @ rest)"
    using assms(3,4) nsp by (intro run1_append) simp_all
  have s3: "run1 is_word (name @ rest) = Some (name, rest)"
    using assms(5-7) by (intro run1_append)
  show ?thesis
    unfolding class_decl_at_def p option.case s1 prod.case c s2 s3 by (rule refl)
qed

section \<open>The java case\<close>

lemma written_kill [simp]: "written (trace (kill cmd s)) = written (trace s)"
  by (simp add: written_append)

lemma written_launch [simp]: "written (trace (snd (launch w cmd args inp s))) = written (trace s)"
  by (simp add: written_append)

lemma written_writeFile [simp]: "written (trace (writeFile p c s)) = written (trace s) @ [(p, c)]"
  by (simp add: written_append)

lemma written_java_cleanup [simp]: "written (trace (java_cleanup w code s)) = written (trace s)"
  by (simp add: java_cleanup_def)

lemma written_finally [simp]: "written (trace (finally_block w language process s)) = written (trace s)"
  by (cases process) (simp_all add: finally_block_def written_append)

lemma written_settle [simp]: "written (trace (snd (settle w language process rs))) = written (trace (snd rs))"
  by (cases rs) (simp add: settle_def split: outcome.splits)

lemma written_java_case:
  "written (trace (snd (java_case w code s))) =
     written (trace s) @ [(javaFile w code, javaProgram (className code))]"
  unfolding java_case_def Let_def split_beta
  by (simp add: written_append split: ending.splits)

lemma check_toolchain_java_ok:
  assumes "ending (spawn w ''java'' [''-version''] None (files s)) = Exit (Some 0) t"
  shows "check_toolchain w ''java'' s = (Returns (), snd (launch w ''java'' [''-version''] None s))"
  using assms by (simp add: check_toolchain_def probe_eq)

lemma check_toolchain_cpp_ok:
  assumes "ending (spawn w ''g++'' [''--version''] None (files s)) = Exit (Some 0) t"
  shows "check_toolchain w ''cpp'' s = (Returns (), snd (launch w ''g++'' [''--version''] None s))"
  using assms by (simp add: check_toolchain_def probe_eq)

lemma executeCode_java:
  assumes "ending (spawn w ''java'' [''-version''] None (files s)) = Exit (Some 0) t"
  shows "executeCode w code ''java'' input s =
     settle w ''java'' None
       (java_case w code (writeFile (filePath w) code (snd (launch w ''java'' [''-version''] None s))))"
  by (simp add: executeCode_def prepare_def check_toolchain_java_ok [OF assms] Let_def split_beta)

lemma className_declares_Foo: "className declares_Foo = ''Foo''"
  unfolding declares_Foo_def
  using className_plain [of "''// demo\<newline>''" "''Foo''" "'' { }''"]
  by (simp add: is_word_def is_digit_def)

section \<open>What the java case compiles\<close>

lemma className_prints_5: "className prints_5 = ''Main''"
  unfolding prints_5_def
  using className_plain [of "[]" "''Main''" "'' { public static void main(String[] a) { System.out.println(5); } }''"]
  by (simp add: is_word_def is_digit_def)

lemma className_prints_6: "className prints_6 = ''Main''"
  unfolding prints_6_def
  using className_plain [of "[]" "''Main''" "'' { public static void main(String[] a) { System.out.println(6); } }''"]
  by (simp add: is_word_def is_digit_def)

lemma java_job_sample:
  "fst (executeCode w_tools prints_5 ''java'' [] s0) =
     Returns \<lparr>output = Some ''Sorted array (first 10 elements):\<newline>3 8 11 15 16 20 22 25 31 40 ...'',
              errors = None, error = Some None,
              executionTime = ParseIntNanos ''2504000000'', memoryUsage = Zero\<rparr>
   \<and> trace (snd (executeCode w_tools prints_5 ''java'' [] s0)) =
       [Spawn ''java'' [''-version''], Write ''/tmp/code_42'' prints_5,
        Write ''/tmp/Main.java'' (javaProgram ''Main''), Spawn ''javac'' [''/tmp/Main.java''],
        Spawn ''java'' [''-cp'', ''/tmp'', ''Main''], Unlink ''/tmp/Main.java'', Unlink ''/tmp/Main.class'']"
  apply (simp add: executeCode_def prepare_def check_toolchain_def probe_def launch_def Let_def
     w_tools_def world_of_def silent_def s0_def java_case_def className_prints_5 javaFile_def javaClass_def
     join_def filePath_def fileName_def show_nat_42 writeFile_def javac_creates_def
     settle_def finally_block_def cleanup_def java_cleanup_def unlink_if_exists_def java_success_def)
  apply (simp add: sorting_report_def strip_metrics_def memory_marker_at_def run1_def is_digit_dot_def
     is_digit_def trim_def is_space_def java_time_def nanos_marker_at_def)
  done

text \<open>
  Claim C1 requires that a program printing a literal gets that literal back as its
  output, in every supported language. The java case never compiles the submitted
  source: the file it writes, compiles and runs is the fixed program \<open>javaProgram\<close>
  with the class name filled in, so everything the java case does is determined by the
  class name alone. Two sources with the same class name that print different literals
  get the same result.
\<close>

theorem java_case_depends_on_class_name_only:
  assumes "className code = className code'"
  shows "java_case w code s = java_case w code' s"
  unfolding java_case_def javaFile_def javaClass_def java_cleanup_def assms by (rule refl)

theorem java_case_depends_on_class_name_only_witness:
  "className prints_5 = className prints_6
   \<and> prints_5 \<noteq> prints_6
   \<and> java_case w_tools prints_5 s0 = java_case w_tools prints_6 s0
   \<and> fst (executeCode w_tools prints_5 ''java'' [] s0) =
       Returns \<lparr>output = Some ''Sorted array (first 10 elements):\<newline>3 8 11 15 16 20 22 25 31 40 ...'',
                errors = None, error = Some None,
                executionTime = ParseIntNanos ''2504000000'', memoryUsage = Zero\<rparr>
   \<and> trace (snd (executeCode w_tools prints_5 ''java'' [] s0)) =
       [Spawn ''java'' [''-version''], Write ''/tmp/code_42'' prints_5,
        Write ''/tmp/Main.java'' (javaProgram ''Main''), Spawn ''javac'' [''/tmp/Main.java''],
        Spawn ''java'' [''-cp'', ''/tmp'', ''Main''], Unlink ''/tmp/Main.java'', Unlink ''/tmp/Main.class'']"
proof -
  have c: "className prints_5 = className prints_6"
    by (simp add: className_prints_5 className_prints_6)
  have d: "prints_5 \<noteq> prints_6"
    by (simp add: prints_5_def prints_6_def)
  show ?thesis
    using java_case_depends_on_class_name_only [OF c, of w_tools s0] c d java_job_sample
    by simp
qed

section \<open>Files that outlive the job\<close>

lemma files_writeFile [simp]: "files (writeFile p c s) = (files s)(p \<mapsto> c)"
  by (simp add: writeFile_def)

lemma files_kill [simp]: "files (kill cmd s) = files s"
  by (simp add: kill_def)

lemma dom_launch: "p \<in> dom (files s) \<Longrightarrow> p \<in> dom (files (snd (launch w cmd args inp s)))"
  by (auto simp: launch_def Let_def)

lemma dom_unlink: "p \<in> dom (files s) \<Longrightarrow> p \<noteq> q \<Longrightarrow> p \<in> dom (files (unlink_if_exists q s))"
  by (auto simp: unlink_if_exists_def)

lemma files_run_stage [simp]: "files (snd (run_stage w p cmd s)) = files s"
  by (simp add: run_stage_def split: ending.splits)

lemma dom_java_cleanup:
  "p \<in> dom (files s) \<Longrightarrow> p \<noteq> javaFile w code \<Longrightarrow> p \<noteq> javaClass w code \<Longrightarrow>
   p \<in> dom (files (java_cleanup w code s))"
  unfolding java_cleanup_def by (intro dom_unlink)

lemma dom_java_case:
  assumes "p \<in> dom (files s)" "p \<noteq> javaFile w code" "p \<noteq> javaClass w code"
  shows "p \<in> dom (files (snd (java_case w code s)))"
proof -
  let ?s1 = "writeFile (javaFile w code) (javaProgram (className code)) s"
  let ?s2 = "snd (launch w ''javac'' [javaFile w code] None ?s1)"
  let ?s3 = "snd (launch w ''java'' [''-cp'', tmpdir w, className code] None ?s2)"
  have 1: "p \<in> dom (files ?s1)" using assms(1) by simp
  have 2: "p \<in> dom (files ?s2)" using 1 by (rule dom_launch)
  have 3: "p \<in> dom (files ?s3)" using 2 by (rule dom_launch)
  have 4: "p \<in> dom (files (java_cleanup w code ?s2))" using 2 assms(2,3) by (rule dom_java_cleanup)
  have 5: "p \<in> dom (files (java_cleanup w code ?s3))" using 3 assms(2,3) by (rule dom_java_cleanup)
  show ?thesis
    unfolding java_case_def Let_def split_beta
    using 2 3 4 5 by (simp split: ending.splits)
qed

lemma dom_cpp_case:
  assumes "p \<in> dom (files s)"
  shows "p \<in> dom (files (snd (cpp_case w code input s)))"
proof -
  let ?s1 = "writeFile (cppFile w) (cppCode code) s"
  let ?s2 = "snd (launch w ''g++'' [cppFile w, ''-o'', filePath w, ''-std=c++11'', ''-Wall''] None ?s1)"
  let ?s3 = "snd (launch w (filePath w) [] (stdin_text input) ?s2)"
  have 1: "p \<in> dom (files ?s1)" using assms(1) by simp
  have 2: "p \<in> dom (files ?s2)" using 1 by (rule dom_launch)
  have 3: "p \<in> dom (files ?s3)" using 2 by (rule dom_launch)
  show ?thesis
    unfolding cpp_case_def Let_def split_beta
    using 2 3 by (simp split: ending.splits)
qed

lemma dom_settle:
  assumes "p \<in> dom (files (snd rs))"
    and "language = ''java'' \<Longrightarrow> p \<noteq> join (tmpdir w) ''Main.java'' \<and> p \<noteq> join (tmpdir w) ''Main.class''"
    and "language = ''cpp'' \<Longrightarrow> p \<noteq> cppFile w"
    and "language \<noteq> ''java'' \<Longrightarrow> language \<noteq> ''cpp'' \<Longrightarrow> p \<noteq> filePath w"
  shows "p \<in> dom (files (snd (settle w language process rs)))"
proof -
  have k: "p \<in> dom (files (case process of Some cmd \<Rightarrow> kill cmd s | None \<Rightarrow> s))" if "p \<in> dom (files s)" for s
    using that by (cases process) simp_all
  have c: "p \<in> dom (files (cleanup w language s))" if "p \<in> dom (files s)" for s
  proof (cases "language = ''java''")
    case True
    then show ?thesis
      using that assms(2) by (simp add: cleanup_def dom_unlink)
  next
    case False
    then show ?thesis
      using that assms(3,4) by (cases "language = ''cpp''") (simp_all add: cleanup_def dom_unlink)
  qed
  have f: "p \<in> dom (files (finally_block w language process s))" if "p \<in> dom (files s)" for s
    unfolding finally_block_def using that by (intro c k)
  show ?thesis
    using assms(1) f by (cases rs) (auto simp: settle_def split: outcome.splits)
qed

lemma show_nat_last: "show_nat n \<noteq> [] \<and> is_digit (last (show_nat n))"
proof -
  have d: "is_digit (digit_char k)" for k
    by (simp add: digit_char_def is_digit_def)
  show ?thesis
    by (subst (1 2) show_nat.simps) (simp add: d)
qed

lemma join_inject [simp]: "join d a = join d b \<longleftrightarrow> a = b"
  by (simp add: join_def)

lemma fileName_last: "fileName w \<noteq> [] \<and> is_digit (last (fileName w))"
  using show_nat_last [of "timestamp w"] by (simp add: fileName_def)

lemma filePath_not_java: "filePath w \<noteq> join (tmpdir w) (n @ ''.java'')"
proof
  assume "filePath w = join (tmpdir w) (n @ ''.java'')"
  then have "fileName w = n @ ''.java''" by (simp add: filePath_def)
  then have "last (fileName w) = CHR ''a''" by simp
  with fileName_last [of w] show False by (simp add: is_digit_def)
qed

lemma filePath_not_class: "filePath w \<noteq> join (tmpdir w) (n @ ''.class'')"
proof
  assume "filePath w = join (tmpdir w) (n @ ''.class'')"
  then have "fileName w = n @ ''.class''" by (simp add: filePath_def)
  then have "last (fileName w) = CHR ''s''" by simp
  with fileName_last [of w] show False by (simp add: is_digit_def)
qed

lemma filePath_not_cppFile: "filePath w \<noteq> cppFile w"
  by (simp add: cppFile_def)


lemma executeCode_cpp:
  assumes "ending (spawn w ''g++'' [''--version''] None (files s)) = Exit (Some 0) t"
  shows "executeCode w code ''cpp'' input s =
     (case cpp_case w code input (writeFile (filePath w) code (snd (launch w ''g++'' [''--version''] None s))) of
        (Early r, s1) \<Rightarrow> settle w ''cpp'' None (r, s1)
      | (Launched p cmd, s1) \<Rightarrow> settle w ''cpp'' (Some cmd) (run_stage w p cmd s1))"
  by (simp add: executeCode_def prepare_def check_toolchain_cpp_ok [OF assms] Let_def)

lemma cpp_job_sample:
  "fst (executeCode w_tools cpp_prints_5 ''cpp'' [] s0) =
       Returns \<lparr>output = Some ''5'', errors = None, error = None,
                executionTime = ElapsedMillis 7, memoryUsage = Zero\<rparr>
   \<and> unlinked (trace (snd (executeCode w_tools cpp_prints_5 ''cpp'' [] s0))) = [''/tmp/code_42.cpp'']
   \<and> files (snd (executeCode w_tools cpp_prints_5 ''cpp'' [] s0)) ''/tmp/code_42'' = Some ''ELF''"
  apply (simp add: executeCode_def prepare_def check_toolchain_def probe_def launch_def Let_def
     w_tools_def world_of_def silent_def s0_def cpp_case_def cppFile_def
     join_def filePath_def fileName_def show_nat_42 writeFile_def gpp_creates_def stdin_text_def
     settle_def finally_block_def cleanup_def unlink_if_exists_def run_stage_def run_success_def
     timeout_def kill_def)
  apply (simp add: strip_metrics_def trim_def is_space_def reported_time_def reported_memory_def
      time_marker_at_def memory_marker_at_def)
  done

text \<open>
  Claim C2 requires that no derived file is left once the job is over. In every java
  and cpp job that passes the probe, on every path, the file \<^verbatim>\<open><tmpdir>/code_<timestamp>\<close>
  that the job writes first (for cpp later overwritten by the compiled binary) is still
  on disk in the final state: the cleanup of these two languages never deletes it.
\<close>

theorem temporary_file_outlives_java_and_cpp_jobs:
  assumes "(language = ''java'' \<and> ending (spawn w ''java'' [''-version''] None (files s)) = Exit (Some 0) t)
         \<or> (language = ''cpp'' \<and> ending (spawn w ''g++'' [''--version''] None (files s)) = Exit (Some 0) t)"
  shows "filePath w \<in> dom (files (snd (executeCode w code language input s)))"
  using assms
proof (elim disjE conjE)
  assume l: "language = ''java''" and e: "ending (spawn w ''java'' [''-version''] None (files s)) = Exit (Some 0) t"
  let ?s1 = "writeFile (filePath w) code (snd (launch w ''java'' [''-version''] None s))"
  have 1: "filePath w \<in> dom (files ?s1)" by simp
  have 2: "filePath w \<in> dom (files (snd (java_case w code ?s1)))"
    using 1 by (rule dom_java_case) (simp_all add: javaFile_def javaClass_def filePath_not_java filePath_not_class)
  have m: "filePath w \<noteq> join (tmpdir w) ''Main.java'' \<and> filePath w \<noteq> join (tmpdir w) ''Main.class''"
    using filePath_not_java [of w "''Main''"] filePath_not_class [of w "''Main''"] by simp
  have "filePath w \<in> dom (files (snd (settle w ''java'' None (java_case w code ?s1))))"
    using 2 by (rule dom_settle) (simp_all add: m)
  then show ?thesis by (simp add: l executeCode_java [OF e])
next
  assume l: "language = ''cpp''" and e: "ending (spawn w ''g++'' [''--version''] None (files s)) = Exit (Some 0) t"
  let ?s1 = "writeFile (filePath w) code (snd (launch w ''g++'' [''--version''] None s))"
  have 1: "filePath w \<in> dom (files ?s1)" by simp
  have 2: "filePath w \<in> dom (files (snd (cpp_case w code input ?s1)))"
    using 1 by (rule dom_cpp_case)
  show ?thesis
  proof (cases "cpp_case w code input ?s1")
    case (Pair a s2)
    with 2 have 3: "filePath w \<in> dom (files s2)" by simp
    show ?thesis
    proof (cases a)
      case (Launched p cmd)
      have "filePath w \<in> dom (files (snd (run_stage w p cmd s2)))" using 3 by simp
      then have "filePath w \<in> dom (files (snd (settle w ''cpp'' (Some cmd) (run_stage w p cmd s2))))"
        by (rule dom_settle) (simp_all add: filePath_not_cppFile)
      then show ?thesis by (simp add: l executeCode_cpp [OF e] Pair Launched)
    next
      case (Early r)
      have "filePath w \<in> dom (files (snd (settle w ''cpp'' None (r, s2))))"
        by (rule dom_settle) (simp_all add: 3 filePath_not_cppFile)
      then show ?thesis by (simp add: l executeCode_cpp [OF e] Pair Early)
    qed
  qed
qed


theorem temporary_file_outlives_java_and_cpp_jobs_witness:
  "ending (spawn w_tools ''g++'' [''--version''] None (files s0)) = Exit (Some 0) 5
   \<and> filePath w_tools \<in> dom (files (snd (executeCode w_tools cpp_prints_5 ''cpp'' [] s0)))
   \<and> fst (executeCode w_tools cpp_prints_5 ''cpp'' [] s0) =
       Returns \<lparr>output = Some ''5'', errors = None, error = None,
                executionTime = ElapsedMillis 7, memoryUsage = Zero\<rparr>
   \<and> unlinked (trace (snd (executeCode w_tools cpp_prints_5 ''cpp'' [] s0))) = [''/tmp/code_42.cpp'']
   \<and> files (snd (executeCode w_tools cpp_prints_5 ''cpp'' [] s0)) ''/tmp/code_42'' = Some ''ELF''"
proof -
  have e: "ending (spawn w_tools ''g++'' [''--version''] None (files s0)) = Exit (Some 0) 5"
    by (simp add: w_tools_def world_of_def silent_def)
  show ?thesis
    using temporary_file_outlives_java_and_cpp_jobs [of "''cpp''" w_tools s0 5 cpp_prints_5 "[]"]
      cpp_job_sample e
    by simp
qed

section \<open>The run stage\<close>

lemma executeCode_launched:
  assumes "fst (prepare w code language input s) = Launched p cmd"
  shows "executeCode w code language input s =
     settle w language (Some cmd) (run_stage w p cmd (snd (prepare w code language input s)))"
  using assms by (cases "prepare w code language input s") (simp add: executeCode_def)

lemma launched_language:
  assumes "fst (prepare w code language input s) = Launched p cmd"
  shows "language = ''javascript'' \<or> language = ''python'' \<or> language = ''cpp''"
proof (rule ccontr)
  assume n: "\<not> (language = ''javascript'' \<or> language = ''python'' \<or> language = ''cpp'')"
  show False
  proof (cases "language = ''java''")
    case True
    with assms show False
      by (cases "check_toolchain w ''java'' s")
         (auto simp: prepare_def Let_def split_beta split: outcome.splits)
  next
    case False
    with n have "language \<notin> {''javascript'', ''python'', ''java'', ''cpp''}" by simp
    from prepare_unsupported [OF this] assms show False by simp
  qed
qed

lemma run_stage_closed:
  assumes "ending p = Exit c t" "t < timeout"
  shows "run_stage w p cmd s =
     (if c = Some 0 then (Returns (run_success w p), s)
      else (Throws (if concat (chunks_err p) \<noteq> [] then concat (chunks_err p)
                    else ''Process exited with code '' @ show_code c), s))"
  using assms by (simp add: run_stage_def)


lemma executeCode_closed:
  assumes "fst (prepare w code language input s) = Launched p cmd" "ending p = Exit c t" "t < timeout"
  shows "fst (executeCode w code language input s) =
     (if c = Some 0 then Returns (run_success w p)
      else Throws (if concat (chunks_err p) \<noteq> [] then concat (chunks_err p)
                   else ''Process exited with code '' @ show_code c))"
  by (simp add: executeCode_launched [OF assms(1)] run_stage_closed [OF assms(2,3)] settle_def)


lemma handler_submission:
  assumes "code \<noteq> []" "language \<noteq> []"
  shows "execute_handler w (submission code language input) s =
     (case executeCode w code language input s of
        (Returns r, s') \<Rightarrow> (Reply 200 r, s')
      | (Throws msg, s') \<Rightarrow> (Reply 500 (error_result msg), s')
      | (Pending, s') \<Rightarrow> (NoReply, s')
      | (Fault, s') \<Rightarrow> (NoReply, s'))"
  using assms by (simp add: execute_handler_def submission_def truthy_def)

lemma handler_fst:
  assumes "code \<noteq> []" "language \<noteq> []"
  shows "fst (execute_handler w (submission code language input) s) =
     (case fst (executeCode w code language input s) of
        Returns r \<Rightarrow> Reply 200 r
      | Throws msg \<Rightarrow> Reply 500 (error_result msg)
      | Pending \<Rightarrow> NoReply
      | Fault \<Rightarrow> NoReply)"
  and "snd (execute_handler w (submission code language input) s) = snd (executeCode w code language input s)"
  by (cases "executeCode w code language input s"; simp add: handler_submission [OF assms] split: outcome.splits)+

lemma killed_unlink [simp]: "killed (trace (unlink_if_exists p s)) = killed (trace s)"
  by (simp add: trace_unlink killed_append)

lemma killed_launch [simp]: "killed (trace (snd (launch w cmd args inp s))) = killed (trace s)"
  by (simp add: killed_append)

lemma killed_writeFile [simp]: "killed (trace (writeFile p c s)) = killed (trace s)"
  by (simp add: killed_append)

lemma killed_kill [simp]: "killed (trace (kill cmd s)) = killed (trace s) @ [cmd]"
  by (simp add: killed_append)

lemma killed_cleanup [simp]: "killed (trace (cleanup w language s)) = killed (trace s)"
  by (simp add: cleanup_def)

lemma killed_java_case [simp]: "killed (trace (snd (java_case w code s))) = killed (trace s)"
  unfolding java_case_def Let_def split_beta java_cleanup_def
  by (simp split: ending.splits)

lemma killed_cpp_case [simp]: "killed (trace (snd (cpp_case w code input s))) = killed (trace s)"
  unfolding cpp_case_def Let_def split_beta
  by (simp split: ending.splits)

lemma killed_check_toolchain [simp]: "killed (trace (snd (check_toolchain w language s))) = killed (trace s)"
  by (simp add: check_toolchain_def probe_eq)

lemma killed_prepare [simp]: "killed (trace (snd (prepare w code language input s))) = killed (trace s)"
proof (cases "check_toolchain w language s")
  case (Pair r s1)
  have k: "killed (trace s1) = killed (trace s)"
    using killed_check_toolchain [of w language s] by (simp add: Pair)
  show ?thesis
    by (cases r) (simp_all add: prepare_def Pair Let_def split_beta k)
qed

lemma first_split_Some: "first_split n s = Some (a, b) \<Longrightarrow> s = a @ n @ b"
proof (induction s arbitrary: a)
  case Nil
  then show ?case by (simp split: if_splits)
next
  case (Cons c cs)
  show ?case
  proof (cases "strip_prefix n (c # cs)")
    case (Some r)
    with Cons.prems have "a = []" "b = r" by simp_all
    with strip_prefix_Some [OF Some] show ?thesis by simp
  next
    case None
    with Cons.prems obtain a' where "first_split n cs = Some (a', b)" "a = c # a'"
      by (auto split: option.splits)
    with Cons.IH [of a'] show ?thesis by simp
  qed
qed

lemma last_match_Some: "last_match m s = Some r \<Longrightarrow> \<exists>pre post. s = pre @ post \<and> m post = Some r"
proof (induction s)
  case Nil
  then show ?case by simp
next
  case (Cons c cs)
  show ?case
  proof (cases "last_match m cs")
    case None
    with Cons.prems have "c # cs = [] @ (c # cs) \<and> m (c # cs) = Some r" by simp
    then show ?thesis by (intro exI)
  next
    case (Some a)
    with Cons.prems have "last_match m cs = Some r" by simp
    from Cons.IH [OF this] obtain pre post where "cs = pre @ post" "m post = Some r"
      by (elim exE conjE)
    then have "c # cs = (c # pre) @ post \<and> m post = Some r" by simp
    then show ?thesis by (intro exI)
  qed
qed

lemma memory_marker_at_Some:
  assumes "memory_marker_at s = Some (payload, rest)"
  shows "s = ''Memory Usage: '' @ payload @ '' MB'' @ rest \<and> payload \<noteq> [] \<and> list_all is_digit_dot payload"
proof -
  from assms obtain r1 r2 where
    a: "strip_prefix ''Memory Usage: '' s = Some r1" and b: "run1 is_digit_dot r1 = Some (payload, r2)"
    and c: "strip_prefix '' MB'' r2 = Some rest"
    by (auto simp: memory_marker_at_def split: option.splits prod.splits)
  show ?thesis
    using strip_prefix_Some [OF a] run1_Some [OF b] strip_prefix_Some [OF c] by simp
qed

lemma strip_metrics_span:
  "strip_metrics out = out
   \<or> (\<exists>pre mid payload nl rest.
         out = pre @ ''Performance Metrics:'' @ mid @ ''Memory Usage: '' @ payload @ '' MB'' @ nl @ rest
       \<and> payload \<noteq> [] \<and> list_all is_digit_dot payload \<and> (nl = [] \<or> nl = [CHR 0x0A])
       \<and> strip_metrics out = pre @ rest)"
proof (cases "first_split ''Performance Metrics:'' out")
  case None
  then show ?thesis by (simp add: strip_metrics_def)
next
  case (Some ab)
  obtain pre post where ab: "ab = (pre, post)" by (cases ab)
  have o: "out = pre @ ''Performance Metrics:'' @ post"
    using Some unfolding ab by (rule first_split_Some)
  show ?thesis
  proof (cases "last_match memory_marker_at post")
    case None
    then show ?thesis by (simp add: strip_metrics_def Some ab)
  next
    case (Some pr)
    obtain payload r where pr: "pr = (payload, r)" by (cases pr)
    from last_match_Some [OF Some] obtain mid m where
      p: "post = mid @ m" and q: "memory_marker_at m = Some (payload, r)"
      unfolding pr by (elim exE conjE)
    note mm = memory_marker_at_Some [OF q]
    define nl where "nl = (case r of [] \<Rightarrow> [] | c # cs \<Rightarrow> if c = CHR 0x0A then [c] else [])"
    define rest where "rest = (case r of [] \<Rightarrow> [] | c # cs \<Rightarrow> if c = CHR 0x0A then cs else c # cs)"
    have r: "r = nl @ rest" by (simp add: nl_def rest_def split: list.splits)
    have n: "nl = [] \<or> nl = [CHR 0x0A]" by (simp add: nl_def split: list.splits)
    have s: "strip_metrics out = pre @ rest"
      by (simp add: strip_metrics_def \<open>first_split ''Performance Metrics:'' out = Some ab\<close> ab Some pr rest_def)
    have "out = pre @ ''Performance Metrics:'' @ mid @ ''Memory Usage: '' @ payload @ '' MB'' @ nl @ rest"
      using o p mm r by simp
    with mm n s have "\<exists>pre mid payload nl rest.
         out = pre @ ''Performance Metrics:'' @ mid @ ''Memory Usage: '' @ payload @ '' MB'' @ nl @ rest
       \<and> payload \<noteq> [] \<and> list_all is_digit_dot payload \<and> (nl = [] \<or> nl = [CHR 0x0A])
       \<and> strip_metrics out = pre @ rest"
      by (intro exI conjI) (elim conjE, assumption)+
    then show ?thesis by (rule disjI2)
  qed
qed

lemma foldl_no_match:
  assumes "\<forall>x\<in>set xs. g x = None"
  shows "foldl (\<lambda>t x. case g x of Some m \<Rightarrow> h m | None \<Rightarrow> t) z xs = z"
  using assms by (induction xs arbitrary: z) simp_all

lemma foldl_last_match:
  assumes "xs = before @ x # after" "g x = Some m" "\<forall>y\<in>set after. g y = None"
  shows "foldl (\<lambda>t x. case g x of Some m \<Rightarrow> h m | None \<Rightarrow> t) z xs = h m"
  using assms by (simp add: foldl_no_match)

lemma reported_time_none:
  "\<forall>text\<in>set chunks. first_match time_marker_at text = None \<Longrightarrow> reported_time chunks = Zero"
  unfolding reported_time_def by (rule foldl_no_match)

lemma reported_time_last:
  assumes "chunks = before @ text # after" "first_match time_marker_at text = Some m"
    "\<forall>y\<in>set after. first_match time_marker_at y = None"
  shows "reported_time chunks = ParseFloat m"
  unfolding reported_time_def using assms by (rule foldl_last_match)

lemma reported_memory_eq:
  "reported_memory chunks =
     foldl (\<lambda>t x. case first_match memory_marker_at x of Some mr \<Rightarrow> ParseFloat (fst mr) | None \<Rightarrow> t)
       Zero chunks"
proof -
  have "(\<lambda>t text. case first_match memory_marker_at text of Some (m, r) \<Rightarrow> ParseFloat m | None \<Rightarrow> t) =
        (\<lambda>t x. case first_match memory_marker_at x of Some mr \<Rightarrow> ParseFloat (fst mr) | None \<Rightarrow> t)"
    by (intro ext) (simp split: option.splits)
  then show ?thesis by (simp only: reported_memory_def)
qed

lemma reported_memory_none:
  assumes "\<forall>text\<in>set chunks. first_match memory_marker_at text = None"
  shows "reported_memory chunks = Zero"
  unfolding reported_memory_eq using assms by (rule foldl_no_match)

lemma reported_memory_last:
  assumes "chunks = before @ text # after" "first_match memory_marker_at text = Some (m, r)"
    "\<forall>y\<in>set after. first_match memory_marker_at y = None"
  shows "reported_memory chunks = ParseFloat m"
proof -
  have "foldl (\<lambda>t x. case first_match memory_marker_at x of Some mr \<Rightarrow> ParseFloat (fst mr) | None \<Rightarrow> t) Zero chunks
        = ParseFloat (fst (m, r))"
    using assms by (rule foldl_last_match)
  then show ?thesis by (simp add: reported_memory_eq)
qed

section \<open>Sample jobs\<close>

lemmas job_defs =
  execute_handler_def submission_def truthy_def error_result_def
  executeCode_def prepare_def check_toolchain_def probe_def launch_def Let_def
  world_of_def silent_def s0_def java_case_def javaFile_def javaClass_def cpp_case_def cppFile_def
  join_def filePath_def fileName_def show_nat_42 writeFile_def javac_creates_def gpp_creates_def
  stdin_text_def settle_def finally_block_def cleanup_def java_cleanup_def unlink_if_exists_def
  run_stage_def run_success_def java_success_def java_failure_def timeout_def kill_def

lemmas text_defs =
  strip_metrics_def trim_def is_space_def is_digit_def is_digit_dot_def run1_def
  reported_time_def reported_memory_def java_time_def
  time_marker_at_def memory_marker_at_def nanos_marker_at_def
  parseFloat_falsy_def show_code_def show_int_def show_nat.simps digit_char_def

lemma noisy_job_sample:
  "fst (execute_handler w_noisy (submission js_prints_5 ''javascript'' []) s0) =
     Reply 200 \<lparr>output = Some ''5'', errors = Some ''(node:7) Warning: deprecated\<newline>'',
                 error = None, executionTime = ParseFloat ''0.012'', memoryUsage = ParseFloat ''0.25''\<rparr>"
  apply (simp add: job_defs w_noisy_def node_noisy_def js_prints_5_def)
  apply (simp add: text_defs node_report_def)
  done

lemma split_job_sample:
  "fst (executeCode w_split js_prints_5 ''javascript'' [] s0) =
     Returns \<lparr>output = Some ''5'', errors = None, error = None,
              executionTime = ElapsedMillis 7, memoryUsage = ParseFloat ''0.25''\<rparr>"
  apply (simp add: job_defs w_split_def node_split_def js_prints_5_def)
  apply (simp add: text_defs node_report_def)
  done

lemma node_report_marker: "first_match time_marker_at node_report = Some ''0.012''"
  by (simp add: node_report_def text_defs)


lemma noisy_prepare: "fst (prepare w_noisy js_prints_5 ''javascript'' [] s0) = Launched node_noisy ''node''"
  by (simp add: job_defs w_noisy_def)

lemma crash_prepare: "fst (prepare w_crash js_prints_5 ''javascript'' [] s0) = Launched node_crash ''node''"
  by (simp add: job_defs w_crash_def)


section \<open>Success and failure of the run stage\<close>

text \<open>
  Claim C3 says that \<^verbatim>\<open>errors\<close> is absent whenever the exit code is 0. A javascript job
  whose process prints a warning on stderr and closes with code 0 is answered with status
  200, its output, and the warning in \<^verbatim>\<open>errors\<close>.
\<close>

theorem exit_code_zero_with_stderr_counterexample:
  "ending node_noisy = Exit (Some 0) 5
   \<and> fst (execute_handler w_noisy (submission js_prints_5 ''javascript'' []) s0) =
     Reply 200 \<lparr>output = Some ''5'', errors = Some ''(node:7) Warning: deprecated\<newline>'',
                 error = None, executionTime = ParseFloat ''0.012'', memoryUsage = ParseFloat ''0.25''\<rparr>"
  using noisy_job_sample by (simp add: node_noisy_def silent_def)

text \<open>
  Claim C3, as the code has it. For a javascript, python or cpp job whose run-stage
  process closes before the timer fires, the exit code alone decides between the
  reply with status 200 that carries the output and the reply with status 500 whose
  output is empty. With code 0, \<^verbatim>\<open>errors\<close> is absent exactly when nothing was captured on
  stderr, and is the captured stderr text otherwise. With any other code, \<^verbatim>\<open>errors\<close> is the
  captured stderr or, when that is empty, \<^verbatim>\<open>Process exited with code <code>\<close>.
\<close>

theorem run_stage_reply_by_exit_code:
  assumes "fst (prepare w code language input s) = Launched p cmd"
    and "ending p = Exit c t" and "t < timeout" and "code \<noteq> []"
  shows "(c = Some 0 \<longrightarrow>
            (\<exists>r. fst (execute_handler w (submission code language input) s) = Reply 200 r
               \<and> output r = Some (trim (strip_metrics (concat (chunks_out p))))
               \<and> errors r = (if concat (chunks_err p) = [] then None else Some (concat (chunks_err p)))))
       \<and> (c \<noteq> Some 0 \<longrightarrow>
            fst (execute_handler w (submission code language input) s) =
              Reply 500 \<lparr>output = Some [],
                          errors = Some (if concat (chunks_err p) \<noteq> [] then concat (chunks_err p)
                                         else ''Process exited with code '' @ show_code c),
                          error = None, executionTime = Zero, memoryUsage = Zero\<rparr>)"
proof -
  have l: "language \<noteq> []"
    using launched_language [OF assms(1)] by auto
  show ?thesis
    by (simp add: handler_fst(1) [OF assms(4) l] executeCode_closed [OF assms(1-3)]
        run_success_def error_result_def)
qed


theorem run_stage_reply_by_exit_code_witness:
  "fst (prepare w_noisy js_prints_5 ''javascript'' [] s0) = Launched node_noisy ''node''
   \<and> ending node_noisy = Exit (Some 0) 5
   \<and> fst (prepare w_crash js_prints_5 ''javascript'' [] s0) = Launched node_crash ''node''
   \<and> ending node_crash = Exit (Some 1) 5
   \<and> (\<exists>r. fst (execute_handler w_noisy (submission js_prints_5 ''javascript'' []) s0) = Reply 200 r
          \<and> output r = Some ''5''
          \<and> errors r = Some ''(node:7) Warning: deprecated\<newline>'')
   \<and> fst (execute_handler w_crash (submission js_prints_5 ''javascript'' []) s0) =
       Reply 500 \<lparr>output = Some [], errors = Some ''Process exited with code 1'',
                   error = None, executionTime = Zero, memoryUsage = Zero\<rparr>"
proof -
  have n: "ending node_noisy = Exit (Some 0) 5" and c: "ending node_crash = Exit (Some 1) 5"
    by (simp_all add: node_noisy_def node_crash_def silent_def)
  have t: "(5::nat) < timeout" by (simp add: timeout_def)
  have j: "js_prints_5 \<noteq> []" by (simp add: js_prints_5_def)
  have o: "trim (strip_metrics (concat (chunks_out node_noisy))) = ''5''"
    by (simp add: node_noisy_def silent_def node_report_def text_defs)
  have e: "concat (chunks_err node_noisy) = ''(node:7) Warning: deprecated\<newline>''"
    "concat (chunks_err node_crash) = []"
    by (simp_all add: node_noisy_def node_crash_def silent_def)
  have s: "show_code (Some 1) = ''1''"
    by (simp add: text_defs)
  show ?thesis
    using run_stage_reply_by_exit_code [OF noisy_prepare n t j]
      run_stage_reply_by_exit_code [OF crash_prepare c t j]
    by (simp add: noisy_prepare crash_prepare n c o e s)
qed

section \<open>The deadline\<close>





section \<open>Performance markers\<close>

text \<open>
  Claim C7 says that the markers are parsed from the buffered stdout. The elapsed-time
  line of a javascript run that arrives cut in two chunks is not recognised, although
  the buffered stdout holds it: the job reports the wall-clock time instead.
\<close>

theorem markers_parsed_from_buffered_stdout_counterexample:
  "chunks_out node_split = [''5\<newline>Performance Metrics:\<newline>Execution Ti'',
                            ''me: 0.012 s\<newline>Memory Usage: 0.25 MB\<newline>'']
   \<and> concat (chunks_out node_split) = node_report
   \<and> first_match time_marker_at node_report = Some ''0.012''
   \<and> fst (executeCode w_split js_prints_5 ''javascript'' [] s0) =
     Returns \<lparr>output = Some ''5'', errors = None, error = None,
              executionTime = ElapsedMillis 7, memoryUsage = ParseFloat ''0.25''\<rparr>"
proof -
  have "chunks_out node_split = [''5\<newline>Performance Metrics:\<newline>Execution Ti'',
                            ''me: 0.012 s\<newline>Memory Usage: 0.25 MB\<newline>'']"
    by (simp add: node_split_def silent_def node_report_def)
  moreover have "concat (chunks_out node_split) = node_report"
    by (simp add: node_split_def silent_def)
  ultimately show ?thesis
    using split_job_sample node_report_marker by simp
qed

text \<open>
  Claim C7, as the code has it. For a javascript, python or cpp run stage that closes with
  code 0 before the timer fires: the output is the buffered stdout, trimmed, from which
  at most one span is removed, running from a \<^verbatim>\<open>Performance Metrics:\<close> header to a
  \<^verbatim>\<open>Memory Usage: <number> MB\<close> marker and one newline after it. The two markers are looked
  for in each stdout chunk on its own, and the last chunk that holds a marker decides.
  \<^verbatim>\<open>executionTime\<close> is the wall-clock time \<^verbatim>\<open>(Date.now() - startTime) / 1000\<close> when no chunk
  holds the elapsed-time marker (and when the reported number is 0 or \<^verbatim>\<open>NaN\<close>);
  \<^verbatim>\<open>memoryUsage\<close> is 0 when no chunk holds the memory marker.
\<close>

theorem run_stage_markers_per_chunk:
  assumes "fst (prepare w code language input s) = Launched p cmd"
    and "ending p = Exit (Some 0) t" and "t < timeout"
  shows "\<exists>r. fst (executeCode w code language input s) = Returns r
    \<and> output r = Some (trim (strip_metrics (concat (chunks_out p))))
    \<and> (strip_metrics (concat (chunks_out p)) = concat (chunks_out p)
        \<or> (\<exists>pre mid payload nl rest.
             concat (chunks_out p) =
               pre @ ''Performance Metrics:'' @ mid @ ''Memory Usage: '' @ payload @ '' MB'' @ nl @ rest
           \<and> payload \<noteq> [] \<and> list_all is_digit_dot payload \<and> (nl = [] \<or> nl = [CHR 0x0A])
           \<and> strip_metrics (concat (chunks_out p)) = pre @ rest))
    \<and> executionTime r =
        (if falsy (reported_time (chunks_out p))
         then ElapsedMillis (int (endTime w) - int (startTime w))
         else reported_time (chunks_out p))
    \<and> memoryUsage r = reported_memory (chunks_out p)
    \<and> ((\<forall>text\<in>set (chunks_out p). first_match time_marker_at text = None) \<longrightarrow>
          executionTime r = ElapsedMillis (int (endTime w) - int (startTime w)))
    \<and> ((\<forall>text\<in>set (chunks_out p). first_match memory_marker_at text = None) \<longrightarrow>
          memoryUsage r = Zero)
    \<and> (\<forall>before text after m.
          chunks_out p = before @ text # after \<and> first_match time_marker_at text = Some m
          \<and> (\<forall>y\<in>set after. first_match time_marker_at y = None) \<and> \<not> parseFloat_falsy m
          \<longrightarrow> executionTime r = ParseFloat m)
    \<and> (\<forall>before text after m rest.
          chunks_out p = before @ text # after \<and> first_match memory_marker_at text = Some (m, rest)
          \<and> (\<forall>y\<in>set after. first_match memory_marker_at y = None)
          \<longrightarrow> memoryUsage r = ParseFloat m)"
proof -
  let ?r = "run_success w p"
  have 1: "fst (executeCode w code language input s) = Returns ?r"
    by (simp add: executeCode_closed [OF assms])
  have 2: "output ?r = Some (trim (strip_metrics (concat (chunks_out p))))"
    by (simp add: run_success_def)
  have 3: "executionTime ?r =
        (if falsy (reported_time (chunks_out p))
         then ElapsedMillis (int (endTime w) - int (startTime w))
         else reported_time (chunks_out p))"
    by (simp add: run_success_def)
  have 4: "memoryUsage ?r = reported_memory (chunks_out p)"
    by (simp add: run_success_def)
  have 5: "executionTime ?r = ElapsedMillis (int (endTime w) - int (startTime w))"
    if "\<forall>text\<in>set (chunks_out p). first_match time_marker_at text = None"
    using reported_time_none [OF that] by (simp add: 3)
  have 6: "memoryUsage ?r = Zero"
    if "\<forall>text\<in>set (chunks_out p). first_match memory_marker_at text = None"
    using reported_memory_none [OF that] by (simp add: 4)
  have 7: "executionTime ?r = ParseFloat m"
    if "chunks_out p = before @ chunk # after \<and> first_match time_marker_at chunk = Some m
          \<and> (\<forall>y\<in>set after. first_match time_marker_at y = None) \<and> \<not> parseFloat_falsy m"
    for before chunk after m
  proof -
    have "reported_time (chunks_out p) = ParseFloat m"
      using that by (intro reported_time_last [of _ before chunk after]) simp_all
    with that show ?thesis by (simp add: 3)
  qed
  have 8: "memoryUsage ?r = ParseFloat m"
    if "chunks_out p = before @ chunk # after \<and> first_match memory_marker_at chunk = Some (m, rest)
          \<and> (\<forall>y\<in>set after. first_match memory_marker_at y = None)"
    for before chunk after m rest
  proof -
    have "reported_memory (chunks_out p) = ParseFloat m"
      using that by (intro reported_memory_last [of _ before chunk after m rest]) simp_all
    then show ?thesis by (simp add: 4)
  qed
  show ?thesis
    apply (rule exI [of _ ?r])
    apply (intro conjI allI impI)
            apply (rule 1)
           apply (rule 2)
          apply (rule strip_metrics_span)
         apply (rule 3)
        apply (rule 4)
       apply (erule 5)
      apply (erule 6)
     apply (erule 7)
    apply (erule 8)
    done
qed

theorem run_stage_markers_per_chunk_witness:
  "fst (prepare w_noisy js_prints_5 ''javascript'' [] s0) = Launched node_noisy ''node''
   \<and> ending node_noisy = Exit (Some 0) 5
   \<and> chunks_out node_noisy = [node_report]
   \<and> first_match time_marker_at node_report = Some ''0.012''
   \<and> (\<exists>r. fst (executeCode w_noisy js_prints_5 ''javascript'' [] s0) = Returns r
          \<and> output r = Some ''5''
          \<and> executionTime r = ParseFloat ''0.012''
          \<and> memoryUsage r = ParseFloat ''0.25'')"
proof -
  have n: "ending node_noisy = Exit (Some 0) 5"
    by (simp add: node_noisy_def silent_def)
  have t: "(5::nat) < timeout" by (simp add: timeout_def)
  have c: "chunks_out node_noisy = [node_report]"
    by (simp add: node_noisy_def silent_def)
  have o: "trim (strip_metrics node_report) = ''5''"
    by (simp add: node_report_def text_defs)
  have f: "\<not> falsy (ParseFloat ''0.012'')"
    by (simp add: text_defs)
  have rt: "reported_time [node_report] = ParseFloat ''0.012''"
    by (simp add: reported_time_def node_report_marker)
  have rm: "reported_memory [node_report] = ParseFloat ''0.25''"
    by (simp add: node_report_def text_defs)
  have pick: "\<exists>r. A r \<and> B r \<and> C r \<and> D r"
    if "\<exists>r. A r \<and> B r \<and> X r \<and> C r \<and> D r \<and> Y r" for A B C D X Y :: "result \<Rightarrow> bool"
    using that by blast
  have "\<exists>r. fst (executeCode w_noisy js_prints_5 ''javascript'' [] s0) = Returns r
          \<and> output r = Some (trim (strip_metrics (concat (chunks_out node_noisy))))
          \<and> executionTime r =
              (if falsy (reported_time (chunks_out node_noisy))
               then ElapsedMillis (int (endTime w_noisy) - int (startTime w_noisy))
               else reported_time (chunks_out node_noisy))
          \<and> memoryUsage r = reported_memory (chunks_out node_noisy)"
    by (rule pick [OF run_stage_markers_per_chunk [OF noisy_prepare n t]])
  then have "\<exists>r. fst (executeCode w_noisy js_prints_5 ''javascript'' [] s0) = Returns r
          \<and> output r = Some ''5''
          \<and> executionTime r = ParseFloat ''0.012''
          \<and> memoryUsage r = ParseFloat ''0.25''"
    using f by (simp add: c o rt rm)
  with noisy_prepare n c node_report_marker show ?thesis by simp
qed

section \<open>The file under the derived name\<close>

text \<open>
  Claim C6 requires that the submitted source is written under the name derived from its
  class declaration. The name is derived as the claim says: it is the capture of the
  leftmost match of \<^verbatim>\<open>public <spaces> class <spaces> <name>\<close> in the source, with the longest
  run of word characters as the name, and \<^verbatim>\<open>Main\<close> when no position of the source matches;
  the file is \<^verbatim>\<open><tmpdir>/<name>.java\<close>, whatever the timestamp. But what the java job writes
  under that name is the fixed program that starts \<^verbatim>\<open>public class <name>\<close> and goes on with
  the template; the submitted source is written once, under the other name
  \<^verbatim>\<open><tmpdir>/code_<timestamp>\<close>.
\<close>

theorem java_file_holds_template_under_derived_name:
  assumes "ending (spawn w ''java'' [''-version''] None (files s)) = Exit (Some 0) t"
  shows "written (trace (snd (executeCode w code ''java'' input s))) =
       written (trace s) @
         [(filePath w, code),
          (join (tmpdir w) (className code @ ''.java''),
           ''\<newline>public class '' @ className code @ javaProgram_tail)]
     \<and> filePath w \<noteq> join (tmpdir w) (className code @ ''.java'')
     \<and> (classNameMatch code = None \<longrightarrow>
           className code = ''Main'' \<and> (\<forall>k\<le>length code. class_decl_at (drop k code) = None))
     \<and> (\<forall>name. classNameMatch code = Some name \<longrightarrow>
           className code = name
           \<and> (\<exists>pre sp1 sp2 rest. code = pre @ ''public'' @ sp1 @ ''class'' @ sp2 @ name @ rest
                \<and> sp1 \<noteq> [] \<and> list_all is_space sp1 \<and> sp2 \<noteq> [] \<and> list_all is_space sp2
                \<and> name \<noteq> [] \<and> list_all is_word name \<and> (rest = [] \<or> \<not> is_word (hd rest))
                \<and> (\<forall>k<length pre. class_decl_at (drop k code) = None)))
     \<and> (\<forall>pre sp1 sp2 name rest.
           code = pre @ ''public'' @ sp1 @ ''class'' @ sp2 @ name @ rest
           \<and> sp1 \<noteq> [] \<and> list_all is_space sp1 \<and> sp2 \<noteq> [] \<and> list_all is_space sp2
           \<and> name \<noteq> [] \<and> list_all is_word name \<and> (rest = [] \<or> \<not> is_word (hd rest))
           \<and> (\<forall>k<length pre. class_decl_at (drop k code) = None)
           \<longrightarrow> className code = name)"
proof (intro conjI allI impI)
  have "javaProgram (className code) = ''\<newline>public class '' @ className code @ javaProgram_tail"
    by (simp add: javaProgram_def javaProgram_head_def)
  then show "written (trace (snd (executeCode w code ''java'' input s))) =
       written (trace s) @
         [(filePath w, code),
          (join (tmpdir w) (className code @ ''.java''),
           ''\<newline>public class '' @ className code @ javaProgram_tail)]"
    by (simp add: executeCode_java [OF assms] written_java_case javaFile_def)
next
  show "filePath w \<noteq> join (tmpdir w) (className code @ ''.java'')"
    by (rule filePath_not_java)
next
  assume "classNameMatch code = None"
  then show "className code = ''Main''" by (simp add: className_def)
next
  fix k assume "classNameMatch code = None" "k \<le> length code"
  then show "class_decl_at (drop k code) = None"
    unfolding classNameMatch_def by (rule first_match_None)
next
  fix name assume "classNameMatch code = Some name"
  then show "className code = name" by (simp add: className_def)
next
  fix name assume "classNameMatch code = Some name"
  then have "first_match class_decl_at code = Some name"
    by (simp only: classNameMatch_def)
  from first_match_leftmost [OF this]
  obtain pre post where p: "code = pre @ post" and q: "class_decl_at post = Some name"
    and l: "\<forall>k<length pre. class_decl_at (drop k code) = None"
    by (elim exE conjE)
  from class_decl_at_Some_full [OF q]
  obtain sp1 sp2 rest where d: "post = ''public'' @ sp1 @ ''class'' @ sp2 @ name @ rest"
    and e: "sp1 \<noteq> []" "list_all is_space sp1" "sp2 \<noteq> []" "list_all is_space sp2"
      "name \<noteq> []" "list_all is_word name" "rest = [] \<or> \<not> is_word (hd rest)"
    by (elim exE conjE)
  have "code = pre @ ''public'' @ sp1 @ ''class'' @ sp2 @ name @ rest"
    by (simp only: p d)
  with e l show "\<exists>pre sp1 sp2 rest. code = pre @ ''public'' @ sp1 @ ''class'' @ sp2 @ name @ rest
                \<and> sp1 \<noteq> [] \<and> list_all is_space sp1 \<and> sp2 \<noteq> [] \<and> list_all is_space sp2
                \<and> name \<noteq> [] \<and> list_all is_word name \<and> (rest = [] \<or> \<not> is_word (hd rest))
                \<and> (\<forall>k<length pre. class_decl_at (drop k code) = None)"
    by (intro exI conjI)
next
  fix pre sp1 sp2 name rest
  assume a: "code = pre @ ''public'' @ sp1 @ ''class'' @ sp2 @ name @ rest
           \<and> sp1 \<noteq> [] \<and> list_all is_space sp1 \<and> sp2 \<noteq> [] \<and> list_all is_space sp2
           \<and> name \<noteq> [] \<and> list_all is_word name \<and> (rest = [] \<or> \<not> is_word (hd rest))
           \<and> (\<forall>k<length pre. class_decl_at (drop k code) = None)"
  note r1 = a [THEN conjunct2]
  note r2 = r1 [THEN conjunct2]
  note r3 = r2 [THEN conjunct2]
  note r4 = r3 [THEN conjunct2]
  note r5 = r4 [THEN conjunct2]
  note r6 = r5 [THEN conjunct2]
  note r7 = r6 [THEN conjunct2]
  have c: "code = pre @ (''public'' @ sp1 @ ''class'' @ sp2 @ name @ rest)"
    by (rule a [THEN conjunct1])
  have l: "\<forall>k<length pre. class_decl_at (drop k code) = None"
    by (rule r7 [THEN conjunct2])
  have m: "class_decl_at (''public'' @ sp1 @ ''class'' @ sp2 @ name @ rest) = Some name"
    by (rule class_decl_at_complete
          [OF r1 [THEN conjunct1] r2 [THEN conjunct1] r3 [THEN conjunct1] r4 [THEN conjunct1]
              r5 [THEN conjunct1] r6 [THEN conjunct1] r7 [THEN conjunct1]])
  have "first_match class_decl_at (pre @ (''public'' @ sp1 @ ''class'' @ sp2 @ name @ rest)) = Some name"
    using l [unfolded c] m by (rule first_match_at)
  then have "first_match class_decl_at code = Some name"
    by (simp only: c)
  then show "className code = name"
    by (simp only: className_def classNameMatch_def option.case)
qed


theorem java_file_holds_template_under_derived_name_witness:
  "ending (spawn w_tools ''java'' [''-version''] None (files s0)) = Exit (Some 0) 5
   \<and> className declares_Foo = ''Foo''
   \<and> written (trace (snd (executeCode w_tools declares_Foo ''java'' [] s0))) =
       [(''/tmp/code_42'', declares_Foo),
        (''/tmp/Foo.java'', ''\<newline>public class Foo'' @ javaProgram_tail)]
   \<and> declares_Foo \<noteq> ''\<newline>public class Foo'' @ javaProgram_tail"
proof -
  have e: "ending (spawn w_tools ''java'' [''-version''] None (files s0)) = Exit (Some 0) 5"
    by (simp add: w_tools_def world_of_def silent_def)
  have t: "trace s0 = []" by (simp add: s0_def)
  have d: "tmpdir w_tools = ''/tmp''" by (simp add: w_tools_def world_of_def)
  have f: "filePath w_tools = ''/tmp/code_42''" by (simp add: w_tools_def filePath_sample)
  have n: "declares_Foo \<noteq> ''\<newline>public class Foo'' @ javaProgram_tail"
    by (simp add: declares_Foo_def)
  show ?thesis
    using java_file_holds_template_under_derived_name [OF e, of declares_Foo "[]"] n
    by (simp add: e t d f className_declares_Foo join_def)
qed

section \<open>A missing java compiler\<close>

lemma files_launch_error:
  "ending (spawn w cmd args inp (files s)) = SpawnError \<Longrightarrow> files (snd (launch w cmd args inp s)) = files s"
  by (simp add: launch_def Let_def)

text \<open>
  Claim C8 requires that a job on a machine that lacks the toolchain fails with the
  \<^verbatim>\<open>not installed\<close> message and leaves no file. The probe of the java jobs starts the
  launcher \<^verbatim>\<open>java\<close>, not the compiler. When the launcher is there and \<^verbatim>\<open>javac\<close> cannot be
  started, the probe passes, the job writes the temporary source file and the java file,
  and the spawn of \<^verbatim>\<open>javac\<close> ends the server: no reply is sent, no cleanup runs and both
  files stay on disk.
\<close>

theorem java_probe_does_not_cover_the_compiler:
  assumes "ending (spawn w ''java'' [''-version''] None (files s)) = Exit (Some 0) t"
    and "\<forall>fs. ending (spawn w ''javac'' [javaFile w code] None fs) = SpawnError"
    and "code \<noteq> []"
  shows "fst (executeCode w code ''java'' input s) = Fault
    \<and> fst (execute_handler w (submission code ''java'' input) s) = NoReply
    \<and> trace (snd (executeCode w code ''java'' input s)) =
        trace s @ [Spawn ''java'' [''-version''], Write (filePath w) code,
                   Write (javaFile w code) (javaProgram (className code)),
                   Spawn ''javac'' [javaFile w code]]
    \<and> filePath w \<in> dom (files (snd (executeCode w code ''java'' input s)))
    \<and> javaFile w code \<in> dom (files (snd (executeCode w code ''java'' input s)))"
proof -
  let ?s1 = "writeFile (filePath w) code (snd (launch w ''java'' [''-version''] None s))"
  let ?s2 = "writeFile (javaFile w code) (javaProgram (className code)) ?s1"
  let ?s3 = "snd (launch w ''javac'' [javaFile w code] None ?s2)"
  have e: "ending (spawn w ''javac'' [javaFile w code] None (files ?s2)) = SpawnError"
    using assms(2) by blast
  have j: "java_case w code ?s1 = (Fault, ?s3)"
    using e by (simp add: java_case_def Let_def split_beta)
  have x: "executeCode w code ''java'' input s = (Fault, ?s3)"
    by (simp add: executeCode_java [OF assms(1)] j settle_def)
  have f: "files ?s3 = files ?s2"
    using e by (rule files_launch_error)
  have l: "''java'' \<noteq> ([]::string)" by simp
  show ?thesis
    by (simp add: x f handler_fst(1) [OF assms(3) l])
qed


theorem java_probe_does_not_cover_the_compiler_witness:
  "ending (spawn w_jre ''java'' [''-version''] None (files s0)) = Exit (Some 0) 5
   \<and> ending (spawn w_jre ''javac'' [''/tmp/Main.java''] None Map.empty) = SpawnError
   \<and> fst (execute_handler w_jre (submission prints_5 ''java'' []) s0) = NoReply
   \<and> trace (snd (executeCode w_jre prints_5 ''java'' [] s0)) =
       [Spawn ''java'' [''-version''], Write ''/tmp/code_42'' prints_5,
        Write ''/tmp/Main.java'' (javaProgram ''Main''), Spawn ''javac'' [''/tmp/Main.java'']]
   \<and> unlinked (trace (snd (executeCode w_jre prints_5 ''java'' [] s0))) = []
   \<and> ''/tmp/code_42'' \<in> dom (files (snd (executeCode w_jre prints_5 ''java'' [] s0)))
   \<and> ''/tmp/Main.java'' \<in> dom (files (snd (executeCode w_jre prints_5 ''java'' [] s0)))"
proof -
  have e: "ending (spawn w_jre ''java'' [''-version''] None (files s0)) = Exit (Some 0) 5"
    by (simp add: w_jre_def world_of_def silent_def)
  have c: "\<forall>fs. ending (spawn w_jre ''javac'' [javaFile w_jre prints_5] None fs) = SpawnError"
    by (simp add: w_jre_def world_of_def silent_def)
  have c': "ending (spawn w_jre ''javac'' [''/tmp/Main.java''] None Map.empty) = SpawnError"
    by (simp add: w_jre_def world_of_def silent_def)
  have p: "prints_5 \<noteq> []" by (simp add: prints_5_def)
  have t: "trace s0 = []" by (simp add: s0_def)
  have f: "filePath w_jre = ''/tmp/code_42''" by (simp add: w_jre_def filePath_sample)
  have j: "javaFile w_jre prints_5 = ''/tmp/Main.java''"
    by (simp add: javaFile_def className_prints_5 join_def w_jre_def world_of_def)
  show ?thesis
    using java_probe_does_not_cover_the_compiler [OF e c p, of "[]"]
    by (simp add: e c' t f j className_prints_5)
qed

end
